theory Spec2Isabelle
  imports Main "HOL-Library.Word"
begin

section \<open>The on-chain resolution engine (lightningd/onchain/onchain.c)\<close>

text \<open>
  A shallow embedding of the per-channel on-chain daemon. Machine integers are words of
  the width the C source declares (\<open>u32\<close>, \<open>u64\<close>, \<open>unsigned int\<close> is 32 bits,
  \<open>size_t\<close> is 64 bits), so every addition, multiplication and subtraction wraps as in
  C. Byte strings (scripts, hashes, keys, signatures) are lists of bytes; \<open>structeq\<close>,
  \<open>scripteq\<close> and \<open>memeq\<close> are equality of such lists. A pointer that may be
  \<open>NULL\<close> is an \<open>option\<close>.
\<close>

subsection \<open>Data model\<close>

type_synonym u8 = "8 word"
type_synonym u32 = "32 word"
type_synonym u64 = "64 word"
type_synonym bytes = "u8 list"
type_synonym sha256_double = bytes
type_synonym pubkey = bytes
type_synonym privkey = bytes
type_synonym signature = bytes

datatype tx_type =
    FUNDING_TRANSACTION
  | MUTUAL_CLOSE
  | OUR_UNILATERAL
  | THEIR_UNILATERAL
  | THEIR_REVOKED_UNILATERAL
  | OUR_HTLC_TIMEOUT_TO_US
  | THEIR_HTLC_TIMEOUT_TO_THEM
  | OUR_UNILATERAL_TO_US_RETURN_TO_WALLET
  | SELF
  | UNKNOWN_TXTYPE

datatype output_type =
    FUNDING_OUTPUT
  | OUTPUT_TO_US
  | OUTPUT_TO_THEM
  | DELAYED_OUTPUT_TO_US
  | DELAYED_OUTPUT_TO_THEM
  | OUR_HTLC
  | THEIR_HTLC

datatype side = LOCAL | REMOTE

datatype peer_state = ONCHAIND_MUTUAL | ONCHAIND_OUR_UNILATERAL | ONCHAIND_THEIR_UNILATERAL

text \<open>\<open>struct bitcoin_tx\<close> with its inputs and outputs (bitcoin/tx.h); the arrays
  \<open>input\<close> and \<open>output\<close> of the source are \<open>tx_input\<close> and \<open>tx_output\<close>.\<close>

record bitcoin_tx_input =
  in_txid :: sha256_double
  in_index :: u32
  sequence_number :: u32
  in_amount :: "u64 option"
  witness :: "bytes list option"

record bitcoin_tx_output =
  amount :: u64
  script :: bytes

record bitcoin_tx =
  tx_input :: "bitcoin_tx_input list"
  tx_output :: "bitcoin_tx_output list"
  lock_time :: u32

text \<open>\<open>struct proposed_resolution\<close>: \<open>p_tx = None\<close> is the proposal to ignore the
  output after \<open>depth_required\<close> blocks.\<close>

record proposed_resolution =
  p_tx :: "bitcoin_tx option"
  depth_required :: u32
  p_tx_type :: tx_type

text \<open>\<open>struct resolution\<close>: how an output actually got resolved.\<close>

record resolution =
  r_txid :: sha256_double
  depth :: u32
  r_tx_type :: tx_type

record tracked_output =
  tx_type :: tx_type
  txid :: sha256_double
  tx_blockheight :: u32
  outnum :: u32
  satoshi :: u64
  output_type :: output_type
  proposal :: "proposed_resolution option"
  resolved :: "resolution option"

text \<open>\<open>struct feerate_range\<close>; the fields are \<open>min\<close> and \<open>max\<close> in the source.\<close>

record feerate_range =
  fr_min :: u32
  fr_max :: u32

record keyset =
  self_revocation_key :: pubkey
  self_delayed_payment_key :: pubkey
  self_payment_key :: pubkey
  other_payment_key :: pubkey

record htlc_stub =
  cltv_expiry :: u32
  ripemd :: bytes
  owner :: side

text \<open>Every way the process stops other than by returning: \<open>status_failed\<close> with one of
  the three wire error kinds, and the faults of C that the source does not guard.\<close>

datatype fault =
    ONCHAIN_BAD_COMMAND
  | ONCHAIN_INTERNAL_ERROR
  | ONCHAIN_CRYPTO_FAILED
  | NULL_DEREFERENCE
  | OUT_OF_BOUNDS
  | DIVISION_BY_ZERO

text \<open>Messages written to the parent on \<open>REQ_FD\<close>.\<close>

datatype wire_out =
    Onchain_init_reply peer_state
  | Onchain_broadcast_tx bitcoin_tx
  | Onchain_unwatch_tx sha256_double nat

text \<open>Messages read from the parent inside \<open>wait_for_resolved\<close>, after parsing.
  \<open>Onchain_other\<close> is any message none of the three parsers accepts.\<close>

datatype wire_in =
    Onchain_depth sha256_double u32
  | Onchain_spent bitcoin_tx u32 u32
  | Onchain_known_preimage bytes
  | Onchain_other

subsection \<open>Feerate range\<close>

text \<open>
  \<open>narrow_feerate_range\<close>: the two candidate bounds are computed in 64 bits and stored
  into \<open>u32\<close> locals (truncation); a zero multiplier is a division by zero.
\<close>

definition narrow_feerate_range :: "feerate_range \<Rightarrow> u64 \<Rightarrow> u32 \<Rightarrow> fault + feerate_range" where
  "narrow_feerate_range feerate_range fee multiplier =
     (if multiplier = 0 then Inl DIVISION_BY_ZERO
      else
        let max' = (ucast (((fee + 999) * 1000) div (ucast multiplier :: u64)) :: u32);
            min' = (if fee < 999 then 0
                    else (ucast (((fee - 999) * 1000) div (ucast multiplier :: u64)) :: u32));
            r1 = (if max' < fr_max feerate_range
                  then feerate_range\<lparr>fr_max := max'\<rparr> else feerate_range);
            r2 = (if fr_min r1 < min' then r1\<lparr>fr_min := min'\<rparr> else r1)
        in Inr r2)"

subsection \<open>Tracked-output store\<close>

definition new_tracked_output ::
  "sha256_double \<Rightarrow> u32 \<Rightarrow> tx_type \<Rightarrow> u32 \<Rightarrow> u64 \<Rightarrow> output_type \<Rightarrow> tracked_output" where
  "new_tracked_output txid' tx_blockheight' tx_type' outnum' satoshi' output_type' =
     \<lparr>tx_type = tx_type', txid = txid', tx_blockheight = tx_blockheight',
      outnum = outnum', satoshi = satoshi', output_type = output_type',
      proposal = None, resolved = None\<rparr>"

definition ignore_output :: "tracked_output \<Rightarrow> tracked_output" where
  "ignore_output out =
     out\<lparr>resolved := Some \<lparr>r_txid = txid out, depth = 0, r_tx_type = SELF\<rparr>\<rparr>"

definition propose_resolution ::
  "tracked_output \<Rightarrow> bitcoin_tx option \<Rightarrow> u32 \<Rightarrow> tx_type \<Rightarrow> tracked_output" where
  "propose_resolution out tx depth_required' tx_type' =
     out\<lparr>proposal := Some \<lparr>p_tx = tx, depth_required = depth_required',
                            p_tx_type = tx_type'\<rparr>\<rparr>"

definition propose_resolution_at_block ::
  "tracked_output \<Rightarrow> bitcoin_tx option \<Rightarrow> u32 \<Rightarrow> tx_type \<Rightarrow> tracked_output" where
  "propose_resolution_at_block out tx block_required tx_type' =
     (let depth' = (if block_required < tx_blockheight out then 0
                    else block_required - tx_blockheight out)
      in propose_resolution out tx depth' tx_type')"

definition resolved_by_other ::
  "tracked_output \<Rightarrow> sha256_double \<Rightarrow> tx_type \<Rightarrow> tracked_output" where
  "resolved_by_other out txid' tx_type' =
     out\<lparr>resolved := Some \<lparr>r_txid = txid', depth = 0, r_tx_type = tx_type'\<rparr>\<rparr>"

text \<open>\<open>all_irrevocably_resolved\<close>: the loop returns false at the first output that is
  resolved at a depth below 100, and true when it runs off the end of the array.\<close>

fun all_irrevocably_resolved :: "tracked_output list \<Rightarrow> bool" where
  "all_irrevocably_resolved [] = True"
| "all_irrevocably_resolved (out # outs) =
     (case resolved out of
        Some r \<Rightarrow> if depth r < 100 then False else all_irrevocably_resolved outs
      | None \<Rightarrow> all_irrevocably_resolved outs)"


subsection \<open>Library functions the daemon calls\<close>

text \<open>
  The script, signing and hashing primitives live in other files of the repository
  (bitcoin/script.c, bitcoin/tx.c, bitcoin/signature.c, lightningd/htlc_tx.c). The daemon
  is modelled over an arbitrary implementation of them: a record of functions that every
  definition below takes as its first argument, so that every theorem holds whatever
  they compute.
\<close>

record ext =
  bitcoin_txid :: "bitcoin_tx \<Rightarrow> sha256_double"
  measure_tx_cost :: "bitcoin_tx \<Rightarrow> u64"
  scriptpubkey_p2wpkh :: "pubkey \<Rightarrow> bytes"
  scriptpubkey_p2wsh :: "bytes \<Rightarrow> bytes"
  to_self_wscript :: "u32 \<Rightarrow> keyset \<Rightarrow> bytes"
  is_p2wsh :: "bytes \<Rightarrow> bool"
  sha256 :: "bytes \<Rightarrow> bytes"
  sign_tx_input :: "bitcoin_tx \<Rightarrow> bytes \<Rightarrow> privkey \<Rightarrow> pubkey \<Rightarrow> signature"
  check_tx_sig :: "bitcoin_tx \<Rightarrow> bytes \<Rightarrow> pubkey \<Rightarrow> signature \<Rightarrow> bool"
  bitcoin_witness_secret :: "signature \<Rightarrow> bytes \<Rightarrow> bytes list"
  bitcoin_htlc_offer_spend_timeout :: "signature \<Rightarrow> signature \<Rightarrow> bytes \<Rightarrow> bytes list"
  bitcoin_wscript_htlc_offer_ripemd160 :: "pubkey \<Rightarrow> pubkey \<Rightarrow> bytes \<Rightarrow> pubkey \<Rightarrow> bytes"
  htlc_offered_wscript :: "bytes \<Rightarrow> keyset \<Rightarrow> bytes"
  htlc_received_wscript :: "bytes \<Rightarrow> u32 \<Rightarrow> keyset \<Rightarrow> bytes"
  blocks_to_abs_locktime :: "u32 \<Rightarrow> u32 option"
  htlc_timeout_tx :: "sha256_double \<Rightarrow> u32 \<Rightarrow> u64 \<Rightarrow> u32 \<Rightarrow> u32 \<Rightarrow> u64 \<Rightarrow> keyset \<Rightarrow> bitcoin_tx"

text \<open>Modelled from the spec: \<open>htlc_timeout_fee\<close> is an inline function of
  lightningd/htlc_tx.h, which is not among the sources; the HTLC-timeout fee is
  \<open>feerate_per_kw * 663 / 1000\<close> with floor division, in 64 bits.\<close>

definition htlc_timeout_fee :: "u64 \<Rightarrow> u64" where
  "htlc_timeout_fee feerate_per_kw = feerate_per_kw * 663 div 1000"

subsection \<open>Resolving a tracked output\<close>

text \<open>\<open>resolved_by_proposal\<close> reads \<open>out->proposal->tx\<close> without a check: on an output
  with no proposal that is a null dereference.\<close>

definition resolved_by_proposal ::
  "ext \<Rightarrow> tracked_output \<Rightarrow> sha256_double \<Rightarrow> fault + (tracked_output \<times> bool)" where
  "resolved_by_proposal E out txid' =
     (case proposal out of
        None \<Rightarrow> Inl NULL_DEREFERENCE
      | Some p \<Rightarrow>
          (case p_tx p of
             None \<Rightarrow> Inr (out, False)
           | Some tx \<Rightarrow>
               if bitcoin_txid E tx \<noteq> txid' then Inr (out\<lparr>resolved := None\<rparr>, False)
               else Inr (out\<lparr>resolved := Some \<lparr>r_txid = bitcoin_txid E tx, depth = 0,
                                                 r_tx_type = p_tx_type p\<rparr>\<rparr>, True)))"

definition unknown_spend :: "ext \<Rightarrow> tracked_output \<Rightarrow> bitcoin_tx \<Rightarrow> tracked_output" where
  "unknown_spend E out tx =
     out\<lparr>resolved := Some \<lparr>r_txid = bitcoin_txid E tx, depth = 0,
                            r_tx_type = UNKNOWN_TXTYPE\<rparr>\<rparr>"

text \<open>\<open>is_mutual_close\<close>: the loop carries the two flags \<open>local_matched\<close> and
  \<open>remote_matched\<close>.\<close>

fun is_mutual_close_from :: "bitcoin_tx_output list \<Rightarrow> bytes \<Rightarrow> bytes \<Rightarrow> bool \<Rightarrow> bool \<Rightarrow> bool" where
  "is_mutual_close_from [] local_scriptpubkey remote_scriptpubkey local_matched remote_matched = True"
| "is_mutual_close_from (out # rest) local_scriptpubkey remote_scriptpubkey local_matched remote_matched =
     (if script out = local_scriptpubkey \<and> \<not> local_matched
      then is_mutual_close_from rest local_scriptpubkey remote_scriptpubkey True remote_matched
      else if script out = remote_scriptpubkey \<and> \<not> remote_matched
      then is_mutual_close_from rest local_scriptpubkey remote_scriptpubkey local_matched True
      else False)"

definition is_mutual_close :: "bitcoin_tx \<Rightarrow> bytes \<Rightarrow> bytes \<Rightarrow> bool" where
  "is_mutual_close tx local_scriptpubkey remote_scriptpubkey =
     is_mutual_close_from (tx_output tx) local_scriptpubkey remote_scriptpubkey False False"

subsection \<open>The depth and spend loop\<close>

definition proposal_meets_depth :: "tracked_output \<Rightarrow> fault + (tracked_output \<times> wire_out list)" where
  "proposal_meets_depth out =
     (case proposal out of
        None \<Rightarrow> Inl NULL_DEREFERENCE
      | Some p \<Rightarrow>
          (case p_tx p of
             None \<Rightarrow> Inr (ignore_output out, [])
           | Some tx \<Rightarrow> Inr (out, [Onchain_broadcast_tx tx])))"

text \<open>One iteration of the loop of \<open>tx_new_depth\<close>, on \<open>outs[i]\<close>.\<close>

definition tx_new_depth_step ::
  "tracked_output \<Rightarrow> sha256_double \<Rightarrow> u32 \<Rightarrow> fault + (tracked_output \<times> wire_out list)" where
  "tx_new_depth_step out txid' depth' =
     (case resolved out of
        Some r \<Rightarrow>
          if r_txid r = txid' then Inr (out\<lparr>resolved := Some (r\<lparr>depth := depth'\<rparr>)\<rparr>, [])
          else Inr (out, [])
      | None \<Rightarrow>
          (case proposal out of
             None \<Rightarrow> Inr (out, [])
           | Some p \<Rightarrow>
               if txid out = txid' \<and> depth_required p \<le> depth'
               then proposal_meets_depth out
               else Inr (out, [])))"

fun tx_new_depth ::
  "tracked_output list \<Rightarrow> sha256_double \<Rightarrow> u32 \<Rightarrow> fault + (tracked_output list \<times> wire_out list)" where
  "tx_new_depth [] txid' depth' = Inr ([], [])"
| "tx_new_depth (out # outs) txid' depth' =
     (case tx_new_depth_step out txid' depth' of
        Inl e \<Rightarrow> Inl e
      | Inr (out', sent) \<Rightarrow>
          (case tx_new_depth outs txid' depth' of
             Inl e \<Rightarrow> Inl e
           | Inr (outs', sent') \<Rightarrow> Inr (out' # outs', sent @ sent')))"

text \<open>\<open>output_spent\<close>: the first unresolved output that the input spends decides; the
  outputs before it are left as they are. \<open>inp\<close> is \<open>tx->input[input_num]\<close>.\<close>

fun output_spent_from ::
  "ext \<Rightarrow> tracked_output list \<Rightarrow> bitcoin_tx \<Rightarrow> bitcoin_tx_input \<Rightarrow>
   fault + (tracked_output list \<times> wire_out list)" where
  "output_spent_from E [] tx inp =
     Inr ([], [Onchain_unwatch_tx (bitcoin_txid E tx) (length (tx_output tx))])"
| "output_spent_from E (out # outs) tx inp =
     (if resolved out \<noteq> None \<or> in_index inp \<noteq> outnum out \<or> in_txid inp \<noteq> txid out
      then (case output_spent_from E outs tx inp of
              Inl e \<Rightarrow> Inl e
            | Inr (outs', sent) \<Rightarrow> Inr (out # outs', sent))
      else
        (case resolved_by_proposal E out (bitcoin_txid E tx) of
           Inl e \<Rightarrow> Inl e
         | Inr (out', by_us) \<Rightarrow>
             if by_us then Inr (out' # outs, [])
             else
               (case output_type out' of
                  OUTPUT_TO_US \<Rightarrow> Inr (unknown_spend E out' tx # outs, [])
                | DELAYED_OUTPUT_TO_US \<Rightarrow> Inr (unknown_spend E out' tx # outs, [])
                | THEIR_HTLC \<Rightarrow> Inr (out' # outs, [])
                | OUR_HTLC \<Rightarrow> Inl ONCHAIN_INTERNAL_ERROR
                | FUNDING_OUTPUT \<Rightarrow> Inl ONCHAIN_INTERNAL_ERROR
                | OUTPUT_TO_THEM \<Rightarrow> Inl ONCHAIN_INTERNAL_ERROR
                | DELAYED_OUTPUT_TO_THEM \<Rightarrow> Inl ONCHAIN_INTERNAL_ERROR)))"

definition output_spent ::
  "ext \<Rightarrow> tracked_output list \<Rightarrow> bitcoin_tx \<Rightarrow> u32 \<Rightarrow> u32 \<Rightarrow>
   fault + (tracked_output list \<times> wire_out list)" where
  "output_spent E outs tx input_num tx_blockheight' =
     (if unat input_num < length (tx_input tx)
      then output_spent_from E outs tx (tx_input tx ! unat input_num)
      else Inl OUT_OF_BOUNDS)"

text \<open>
  \<open>wait_for_resolved\<close> reads one message per iteration. The messages the parent will send
  are the last argument; the writes to the parent accumulate in \<open>sent\<close>. The loop ends in
  one of three ways: it returns (\<open>Exited\<close>), it stops in \<open>status_failed\<close> or a fault
  (\<open>Failed\<close>), or it is blocked in \<open>wire_sync_read\<close> with nothing left to read
  (\<open>Reading\<close>).
\<close>

datatype run =
    Exited "tracked_output list" "wire_out list"
  | Reading "tracked_output list" "wire_out list"
  | Failed fault

fun wait_for_resolved ::
  "ext \<Rightarrow> tracked_output list \<Rightarrow> wire_out list \<Rightarrow> wire_in list \<Rightarrow> run" where
  "wait_for_resolved E outs sent [] =
     (if all_irrevocably_resolved outs then Exited outs sent else Reading outs sent)"
| "wait_for_resolved E outs sent (msg # msgs) =
     (if all_irrevocably_resolved outs then Exited outs sent
      else
        (case msg of
           Onchain_depth txid' depth' \<Rightarrow>
             (case tx_new_depth outs txid' depth' of
                Inl e \<Rightarrow> Failed e
              | Inr (outs', sent') \<Rightarrow> wait_for_resolved E outs' (sent @ sent') msgs)
         | Onchain_spent tx input_num tx_blockheight' \<Rightarrow>
             (case output_spent E outs tx input_num tx_blockheight' of
                Inl e \<Rightarrow> Failed e
              | Inr (outs', sent') \<Rightarrow> wait_for_resolved E outs' (sent @ sent') msgs)
         | Onchain_known_preimage preimage \<Rightarrow> Failed ONCHAIN_INTERNAL_ERROR
         | Onchain_other \<Rightarrow> Failed ONCHAIN_BAD_COMMAND))"


subsection \<open>Building the sweep transactions\<close>

text \<open>
  \<open>tx_to_us\<close> in three steps. First the transaction as built before the fee is known:
  one input spending the tracked output, one output of the full amount to our wallet key.
  Then the fee, computed on that transaction; all operands are 64 bits wide. Then the
  output is dropped or reduced by the fee, and the input is signed.
\<close>

definition tx_to_us_unsigned :: "ext \<Rightarrow> tracked_output \<Rightarrow> u32 \<Rightarrow> u32 \<Rightarrow> pubkey \<Rightarrow> bitcoin_tx" where
  "tx_to_us_unsigned E out to_self_delay locktime our_wallet_pubkey =
     \<lparr>tx_input = [\<lparr>in_txid = txid out, in_index = outnum out,
                    sequence_number = to_self_delay, in_amount = Some (satoshi out),
                    witness = None\<rparr>],
      tx_output = [\<lparr>amount = satoshi out, script = scriptpubkey_p2wpkh E our_wallet_pubkey\<rparr>],
      lock_time = locktime\<rparr>"

definition tx_to_us_fee :: "ext \<Rightarrow> bitcoin_tx \<Rightarrow> u64 \<Rightarrow> bytes \<Rightarrow> u64" where
  "tx_to_us_fee E tx feerate wscript =
     feerate * (measure_tx_cost E tx + 1 + 3 + 73 + 0 + of_nat (length wscript)) div 1000"

definition tx_to_us ::
  "ext \<Rightarrow> tracked_output \<Rightarrow> u32 \<Rightarrow> u32 \<Rightarrow> u64 \<Rightarrow> u64 \<Rightarrow> bytes \<Rightarrow> pubkey \<Rightarrow> privkey \<Rightarrow> pubkey
   \<Rightarrow> bitcoin_tx" where
  "tx_to_us E out to_self_delay locktime feerate dust_limit wscript our_wallet_pubkey
     privkey' pubkey' =
     (let tx = tx_to_us_unsigned E out to_self_delay locktime our_wallet_pubkey;
          fee = tx_to_us_fee E tx feerate wscript;
          tx' = (if satoshi out < dust_limit + fee then tx\<lparr>tx_output := []\<rparr>
                 else tx\<lparr>tx_output := map (\<lambda>outp. outp\<lparr>amount := amount outp - fee\<rparr>)
                                           (tx_output tx)\<rparr>);
          sig = sign_tx_input E tx' wscript privkey' pubkey'
      in tx'\<lparr>tx_input := map (\<lambda>inp. inp\<lparr>witness := Some (bitcoin_witness_secret E sig wscript)\<rparr>)
                             (tx_input tx')\<rparr>)"

text \<open>The assignment \<open>tx->output[0].amount = a\<close>.\<close>

definition set_output0_amount :: "bitcoin_tx \<Rightarrow> u64 \<Rightarrow> fault + bitcoin_tx" where
  "set_output0_amount tx a =
     (case tx_output tx of
        [] \<Rightarrow> Inl OUT_OF_BOUNDS
      | outp # rest \<Rightarrow> Inr (tx\<lparr>tx_output := outp\<lparr>amount := a\<rparr> # rest\<rparr>))"

text \<open>
  The brute-force loop of \<open>resolve_our_htlc_ourcommit\<close>:
  \<open>for (s64 i = feerate_range->max; i >= feerate_range->min; i--)\<close>. The signed loop
  variable is an \<open>int\<close> (it stays between \<open>-1\<close> and \<open>2^32 - 1\<close>). Running off the low
  end is the \<open>status_failed\<close> after the loop; a match returns the loop variable, the fee
  and the transaction with its output amount set.
\<close>

function resolve_our_htlc_ourcommit_loop ::
  "ext \<Rightarrow> tracked_output \<Rightarrow> bitcoin_tx \<Rightarrow> bytes \<Rightarrow> keyset \<Rightarrow> signature \<Rightarrow> u32 \<Rightarrow> int \<Rightarrow> u64
   \<Rightarrow> fault + (int \<times> u64 \<times> bitcoin_tx)" where
  "resolve_our_htlc_ourcommit_loop E out tx wscript ks remotesig fmin i prev_fee =
     (if i < uint fmin then Inl ONCHAIN_INTERNAL_ERROR
      else if satoshi out < htlc_timeout_fee (word_of_int i)
              \<or> htlc_timeout_fee (word_of_int i) = prev_fee
      then resolve_our_htlc_ourcommit_loop E out tx wscript ks remotesig fmin (i - 1) prev_fee
      else
        (case set_output0_amount tx (satoshi out - htlc_timeout_fee (word_of_int i)) of
           Inl e \<Rightarrow> Inl e
         | Inr tx' \<Rightarrow>
             if \<not> check_tx_sig E tx' wscript (other_payment_key ks) remotesig
             then resolve_our_htlc_ourcommit_loop E out tx' wscript ks remotesig fmin (i - 1)
                    (htlc_timeout_fee (word_of_int i))
             else Inr (i, htlc_timeout_fee (word_of_int i), tx')))"
  by pat_completeness auto
termination
  by (relation "measure (\<lambda>(E, out, tx, wscript, ks, remotesig, fmin, i, prev_fee).
                  nat (i - uint fmin + 1))") auto

declare resolve_our_htlc_ourcommit_loop.simps [simp del]

definition resolve_our_htlc_ourcommit ::
  "ext \<Rightarrow> tracked_output \<Rightarrow> bytes \<Rightarrow> htlc_stub \<Rightarrow> u32 \<Rightarrow> feerate_range \<Rightarrow> privkey \<Rightarrow> signature
   \<Rightarrow> keyset \<Rightarrow> fault + (tracked_output \<times> feerate_range)" where
  "resolve_our_htlc_ourcommit E out wscript htlc to_self_delay feerate_range
     local_payment_privkey remotesig ks =
     (let tx = htlc_timeout_tx E (txid out) (outnum out) (satoshi out * 1000)
                 (cltv_expiry htlc) to_self_delay 0 ks;
          wscript' = bitcoin_wscript_htlc_offer_ripemd160 E (self_payment_key ks)
                       (other_payment_key ks) (ripemd htlc) (self_revocation_key ks)
      in case resolve_our_htlc_ourcommit_loop E out tx wscript' ks remotesig
                (fr_min feerate_range) (uint (fr_max feerate_range)) (- 1) of
           Inl e \<Rightarrow> Inl e
         | Inr (i, fee, tx') \<Rightarrow>
             (case narrow_feerate_range feerate_range fee 663 of
                Inl e \<Rightarrow> Inl e
              | Inr feerate_range' \<Rightarrow>
                  (case tx_input tx' of
                     [] \<Rightarrow> Inl OUT_OF_BOUNDS
                   | inp # rest \<Rightarrow>
                       let localsig = sign_tx_input E tx' wscript' local_payment_privkey
                                        (self_payment_key ks);
                           tx'' = tx'\<lparr>tx_input :=
                                    inp\<lparr>witness := Some (bitcoin_htlc_offer_spend_timeout E
                                                           localsig remotesig wscript')\<rparr> # rest\<rparr>
                       in Inr (propose_resolution_at_block out (Some tx'') (cltv_expiry htlc)
                                 OUR_HTLC_TIMEOUT_TO_US,
                               feerate_range'))))"

definition resolve_our_htlc_theircommit ::
  "ext \<Rightarrow> tracked_output \<Rightarrow> bytes \<Rightarrow> htlc_stub \<Rightarrow> pubkey \<Rightarrow> privkey \<Rightarrow> keyset \<Rightarrow> u64 \<Rightarrow> u64
   \<Rightarrow> tracked_output" where
  "resolve_our_htlc_theircommit E out wscript htlc our_wallet_pubkey local_payment_privkey ks
     feerate_per_kw local_dust_limit_satoshi =
     (let tx = tx_to_us E out 0 (cltv_expiry htlc) feerate_per_kw local_dust_limit_satoshi
                 wscript our_wallet_pubkey local_payment_privkey (other_payment_key ks)
      in propose_resolution_at_block out (Some tx) (cltv_expiry htlc) OUR_HTLC_TIMEOUT_TO_US)"

definition resolve_their_htlc :: "tracked_output \<Rightarrow> htlc_stub \<Rightarrow> tracked_output" where
  "resolve_their_htlc out htlc =
     propose_resolution_at_block out None (cltv_expiry htlc) THEIR_HTLC_TIMEOUT_TO_THEM"

subsection \<open>Matching commitment outputs\<close>

text \<open>The loop of \<open>match_htlc_output\<close> over \<open>htlc_scripts\<close>, from index \<open>i\<close>; a nullified
  script is skipped. The result \<open>None\<close> is the \<open>-1\<close> of the source. \<open>sha256 E wscript\<close>
  stands for the 32 bytes of \<open>struct sha256\<close>, which \<open>memeq\<close> compares with the output
  script after its first two bytes.\<close>

fun match_htlc_output_from :: "ext \<Rightarrow> bytes \<Rightarrow> bytes option list \<Rightarrow> nat \<Rightarrow> nat option" where
  "match_htlc_output_from E spk [] i = None"
| "match_htlc_output_from E spk (h # hs) i =
     (case h of
        None \<Rightarrow> match_htlc_output_from E spk hs (Suc i)
      | Some wscript \<Rightarrow>
          if drop 2 spk = sha256 E wscript then Some i
          else match_htlc_output_from E spk hs (Suc i))"

definition match_htlc_output :: "ext \<Rightarrow> bitcoin_tx \<Rightarrow> nat \<Rightarrow> bytes option list \<Rightarrow> nat option" where
  "match_htlc_output E tx outnum' htlc_scripts' =
     (if \<not> is_p2wsh E (script (tx_output tx ! outnum')) then None
      else match_htlc_output_from E (script (tx_output tx ! outnum')) htlc_scripts' 0)"

fun derive_htlc_scripts ::
  "ext \<Rightarrow> htlc_stub list \<Rightarrow> side \<Rightarrow> keyset \<Rightarrow> fault + bytes option list" where
  "derive_htlc_scripts E [] side' ks = Inr []"
| "derive_htlc_scripts E (h # hs) side' ks =
     (if owner h = side'
      then (case derive_htlc_scripts E hs side' ks of
              Inl e \<Rightarrow> Inl e
            | Inr rest \<Rightarrow> Inr (Some (htlc_offered_wscript E (ripemd h) ks) # rest))
      else
        (case blocks_to_abs_locktime E (cltv_expiry h) of
           None \<Rightarrow> Inl ONCHAIN_INTERNAL_ERROR
         | Some ltime \<Rightarrow>
             (case derive_htlc_scripts E hs side' ks of
                Inl e \<Rightarrow> Inl e
              | Inr rest \<Rightarrow> Inr (Some (htlc_received_wscript E (ripemd h) ltime ks) # rest))))"

fun sum_amounts :: "bitcoin_tx_output list \<Rightarrow> u64" where
  "sum_amounts [] = 0"
| "sum_amounts (outp # rest) = amount outp + sum_amounts rest"

definition init_feerate_range :: "u64 \<Rightarrow> bitcoin_tx \<Rightarrow> fault + feerate_range" where
  "init_feerate_range funding_satoshi commit_tx =
     (let fee = funding_satoshi - sum_amounts (tx_output commit_tx);
          max_untrimmed_htlcs = (if length (tx_output commit_tx) < 2 then 0
                                 else of_nat (length (tx_output commit_tx)) - 2 :: u64)
      in if 724 + 172 * max_untrimmed_htlcs = 0 then Inl DIVISION_BY_ZERO
         else Inr \<lparr>fr_min = 0,
                   fr_max = ucast ((fee + 999) * 1000 div (724 + 172 * max_untrimmed_htlcs))\<rparr>)"


subsection \<open>The unilateral-close handlers\<close>

text \<open>
  The locals the output loop of a handler updates: the two matchers \<open>script[LOCAL]\<close> and
  \<open>script[REMOTE]\<close>, the HTLC matchers, the cursor into the counterparty's HTLC
  signatures, the feerate range, and the store. \<open>new_tracked_output\<close> appends to the
  store and hands back a pointer to the new element, which the handler then fills in;
  nothing reads the store in between, so the model appends the filled-in output.
\<close>

record scan =
  script_LOCAL :: "bytes option"
  script_REMOTE :: "bytes option"
  htlc_scripts :: "bytes option list"
  htlc_sigs :: "signature list"
  fee_range :: feerate_range
  outs :: "tracked_output list"

text \<open>The values the key derivations at the head of \<open>handle_our_unilateral\<close> produce:
  the keyset and the two private keys. Each derivation that fails stops the daemon with
  \<open>ONCHAIN_CRYPTO_FAILED\<close>.\<close>

record our_keys =
  keyset :: keyset
  local_delayedprivkey :: privkey
  local_payment_privkey :: privkey

text \<open>The output loop of \<open>handle_our_unilateral\<close>, from output \<open>i\<close>.\<close>

function handle_our_unilateral_loop ::
  "ext \<Rightarrow> bitcoin_tx \<Rightarrow> u32 \<Rightarrow> sha256_double \<Rightarrow> our_keys \<Rightarrow> bytes \<Rightarrow> pubkey \<Rightarrow> u32 \<Rightarrow> u64 \<Rightarrow> u64
   \<Rightarrow> htlc_stub list \<Rightarrow> nat \<Rightarrow> scan \<Rightarrow> fault + scan" where
  "handle_our_unilateral_loop E tx tx_blockheight' txid' keys local_wscript our_wallet_pubkey
     to_self_delay feerate_per_kw local_dust_limit_satoshi htlcs i st =
     (if \<not> i < length (tx_output tx) then Inr st
      else if script_LOCAL st = Some (script (tx_output tx ! i)) then
        (let out = new_tracked_output txid' tx_blockheight' OUR_UNILATERAL (of_nat i)
                     (amount (tx_output tx ! i)) DELAYED_OUTPUT_TO_US;
             to_us = tx_to_us E out to_self_delay 0 feerate_per_kw local_dust_limit_satoshi
                       local_wscript our_wallet_pubkey (local_delayedprivkey keys)
                       (self_delayed_payment_key (keyset keys));
             out' = propose_resolution out (Some to_us) to_self_delay
                      OUR_UNILATERAL_TO_US_RETURN_TO_WALLET
         in handle_our_unilateral_loop E tx tx_blockheight' txid' keys local_wscript
              our_wallet_pubkey to_self_delay feerate_per_kw local_dust_limit_satoshi htlcs
              (Suc i) (st\<lparr>outs := outs st @ [out'], script_LOCAL := None\<rparr>))
      else if script_REMOTE st = Some (script (tx_output tx ! i)) then
        (let out = new_tracked_output txid' tx_blockheight' OUR_UNILATERAL (of_nat i)
                     (amount (tx_output tx ! i)) OUTPUT_TO_THEM
         in handle_our_unilateral_loop E tx tx_blockheight' txid' keys local_wscript
              our_wallet_pubkey to_self_delay feerate_per_kw local_dust_limit_satoshi htlcs
              (Suc i) (st\<lparr>outs := outs st @ [ignore_output out], script_REMOTE := None\<rparr>))
      else
        (case match_htlc_output E tx i (htlc_scripts st) of
           None \<Rightarrow> Inl ONCHAIN_INTERNAL_ERROR
         | Some j \<Rightarrow>
             if \<not> j < length htlcs then Inl OUT_OF_BOUNDS
             else if owner (htlcs ! j) = LOCAL then
               (case (htlc_scripts st ! j, htlc_sigs st) of
                  (None, _) \<Rightarrow> Inl NULL_DEREFERENCE
                | (Some wscript, []) \<Rightarrow> Inl OUT_OF_BOUNDS
                | (Some wscript, remotesig # sigs) \<Rightarrow>
                    (case resolve_our_htlc_ourcommit E
                            (new_tracked_output txid' tx_blockheight' OUR_UNILATERAL (of_nat i)
                               (amount (tx_output tx ! i)) OUR_HTLC)
                            wscript (htlcs ! j) to_self_delay (fee_range st)
                            (local_payment_privkey keys) remotesig (keyset keys) of
                       Inl e \<Rightarrow> Inl e
                     | Inr (out', feerate_range') \<Rightarrow>
                         handle_our_unilateral_loop E tx tx_blockheight' txid' keys
                           local_wscript our_wallet_pubkey to_self_delay feerate_per_kw
                           local_dust_limit_satoshi htlcs (Suc i)
                           (st\<lparr>outs := outs st @ [out'], fee_range := feerate_range',
                               htlc_sigs := sigs,
                               htlc_scripts := (htlc_scripts st)[j := None]\<rparr>)))
             else
               (let out = new_tracked_output txid' tx_blockheight' OUR_UNILATERAL (of_nat i)
                            (amount (tx_output tx ! i)) THEIR_HTLC
                in handle_our_unilateral_loop E tx tx_blockheight' txid' keys local_wscript
                     our_wallet_pubkey to_self_delay feerate_per_kw local_dust_limit_satoshi
                     htlcs (Suc i)
                     (st\<lparr>outs := outs st @ [resolve_their_htlc out (htlcs ! j)],
                         htlc_scripts := (htlc_scripts st)[j := None]\<rparr>))))"
  by pat_completeness auto
termination
  by (relation "measure (\<lambda>(E, tx, h, t, keys, w, wallet, d, f, dust, htlcs, i, st).
                  length (tx_output tx) - i)") auto

declare handle_our_unilateral_loop.simps [simp del]

text \<open>The values the derivations at the head of \<open>handle_their_unilateral\<close> produce.\<close>

record their_keys =
  their_keyset :: keyset
  their_local_payment_privkey :: privkey

text \<open>The output loop of \<open>handle_their_unilateral\<close>, from output \<open>i\<close>. The branch for
  \<open>script[REMOTE]\<close> leaves the matcher in place, and the branch for our own HTLCs passes
  \<open>&htlcs[i]\<close>, indexed by the output number.\<close>

function handle_their_unilateral_loop ::
  "ext \<Rightarrow> bitcoin_tx \<Rightarrow> u32 \<Rightarrow> sha256_double \<Rightarrow> their_keys \<Rightarrow> pubkey \<Rightarrow> u64 \<Rightarrow> u64
   \<Rightarrow> htlc_stub list \<Rightarrow> nat \<Rightarrow> scan \<Rightarrow> fault + scan" where
  "handle_their_unilateral_loop E tx tx_blockheight' txid' keys our_wallet_pubkey
     feerate_per_kw local_dust_limit_satoshi htlcs i st =
     (if \<not> i < length (tx_output tx) then Inr st
      else if script_LOCAL st = Some (script (tx_output tx ! i)) then
        (let out = new_tracked_output txid' tx_blockheight' THEIR_UNILATERAL (of_nat i)
                     (amount (tx_output tx ! i)) OUTPUT_TO_US
         in handle_their_unilateral_loop E tx tx_blockheight' txid' keys our_wallet_pubkey
              feerate_per_kw local_dust_limit_satoshi htlcs (Suc i)
              (st\<lparr>outs := outs st @ [ignore_output out], script_LOCAL := None\<rparr>))
      else if script_REMOTE st = Some (script (tx_output tx ! i)) then
        (let out = new_tracked_output txid' tx_blockheight' THEIR_UNILATERAL (of_nat i)
                     (amount (tx_output tx ! i)) DELAYED_OUTPUT_TO_THEM
         in handle_their_unilateral_loop E tx tx_blockheight' txid' keys our_wallet_pubkey
              feerate_per_kw local_dust_limit_satoshi htlcs (Suc i)
              (st\<lparr>outs := outs st @ [ignore_output out]\<rparr>))
      else
        (case match_htlc_output E tx i (htlc_scripts st) of
           None \<Rightarrow> Inl ONCHAIN_INTERNAL_ERROR
         | Some j \<Rightarrow>
             if \<not> j < length htlcs then Inl OUT_OF_BOUNDS
             else if owner (htlcs ! j) = LOCAL then
               (case htlc_scripts st ! j of
                  None \<Rightarrow> Inl NULL_DEREFERENCE
                | Some wscript \<Rightarrow>
                    if \<not> i < length htlcs then Inl OUT_OF_BOUNDS
                    else
                      (let out = new_tracked_output txid' tx_blockheight' THEIR_UNILATERAL
                                   (of_nat i) (amount (tx_output tx ! i)) OUR_HTLC;
                           out' = resolve_our_htlc_theircommit E out wscript (htlcs ! i)
                                    our_wallet_pubkey (their_local_payment_privkey keys)
                                    (their_keyset keys) feerate_per_kw
                                    local_dust_limit_satoshi
                       in handle_their_unilateral_loop E tx tx_blockheight' txid' keys
                            our_wallet_pubkey feerate_per_kw local_dust_limit_satoshi htlcs
                            (Suc i)
                            (st\<lparr>outs := outs st @ [out'],
                                htlc_scripts := (htlc_scripts st)[j := None]\<rparr>)))
             else
               (let out = new_tracked_output txid' tx_blockheight' THEIR_UNILATERAL (of_nat i)
                            (amount (tx_output tx ! i)) THEIR_HTLC
                in handle_their_unilateral_loop E tx tx_blockheight' txid' keys
                     our_wallet_pubkey feerate_per_kw local_dust_limit_satoshi htlcs (Suc i)
                     (st\<lparr>outs := outs st @ [resolve_their_htlc out (htlcs ! j)],
                         htlc_scripts := (htlc_scripts st)[j := None]\<rparr>))))"
  by pat_completeness auto
termination
  by (relation "measure (\<lambda>(E, tx, h, t, keys, wallet, f, dust, htlcs, i, st).
                  length (tx_output tx) - i)") auto

declare handle_their_unilateral_loop.simps [simp del]


text \<open>
  The handlers. Each announces its state, resolves the funding output \<open>outs[0]\<close>, scans
  the commitment outputs and enters \<open>wait_for_resolved\<close>. The argument \<open>keys\<close> is the
  result of the key derivations (\<open>None\<close> when one of them fails); \<open>msgs\<close> are the
  messages the parent sends afterwards.
\<close>

definition handle_mutual_close ::
  "ext \<Rightarrow> bitcoin_tx \<Rightarrow> sha256_double \<Rightarrow> tracked_output list \<Rightarrow> wire_in list \<Rightarrow> run" where
  "handle_mutual_close E tx txid' outs' msgs =
     (case outs' of
        [] \<Rightarrow> Failed OUT_OF_BOUNDS
      | funding # rest \<Rightarrow>
          wait_for_resolved E (resolved_by_other funding txid' MUTUAL_CLOSE # rest)
            [Onchain_init_reply ONCHAIND_MUTUAL] msgs)"

definition handle_our_unilateral_scan ::
  "ext \<Rightarrow> bitcoin_tx \<Rightarrow> u32 \<Rightarrow> sha256_double \<Rightarrow> our_keys option \<Rightarrow> pubkey \<Rightarrow> u32 \<Rightarrow> u64 \<Rightarrow> u64
   \<Rightarrow> htlc_stub list \<Rightarrow> signature list \<Rightarrow> tracked_output list \<Rightarrow> fault + scan" where
  "handle_our_unilateral_scan E tx tx_blockheight' txid' keys our_wallet_pubkey to_self_delay
     feerate_per_kw local_dust_limit_satoshi htlcs htlc_sigs' outs' =
     (case outs' of
        [] \<Rightarrow> Inl OUT_OF_BOUNDS
      | funding # rest \<Rightarrow>
          (case init_feerate_range (satoshi funding) tx of
             Inl e \<Rightarrow> Inl e
           | Inr feerate_range \<Rightarrow>
               (case keys of
                  None \<Rightarrow> Inl ONCHAIN_CRYPTO_FAILED
                | Some k \<Rightarrow>
                    (case derive_htlc_scripts E htlcs LOCAL (keyset k) of
                       Inl e \<Rightarrow> Inl e
                     | Inr scripts \<Rightarrow>
                         handle_our_unilateral_loop E tx tx_blockheight' txid' k
                           (to_self_wscript E to_self_delay (keyset k)) our_wallet_pubkey
                           to_self_delay feerate_per_kw local_dust_limit_satoshi htlcs 0
                           \<lparr>script_LOCAL = Some (scriptpubkey_p2wsh E
                                                  (to_self_wscript E to_self_delay (keyset k))),
                            script_REMOTE = Some (scriptpubkey_p2wpkh E
                                                   (other_payment_key (keyset k))),
                            htlc_scripts = scripts, htlc_sigs = htlc_sigs',
                            fee_range = feerate_range,
                            outs = resolved_by_other funding txid' OUR_UNILATERAL # rest\<rparr>))))"

definition handle_our_unilateral ::
  "ext \<Rightarrow> bitcoin_tx \<Rightarrow> u32 \<Rightarrow> sha256_double \<Rightarrow> our_keys option \<Rightarrow> pubkey \<Rightarrow> u32 \<Rightarrow> u64 \<Rightarrow> u64
   \<Rightarrow> htlc_stub list \<Rightarrow> signature list \<Rightarrow> tracked_output list \<Rightarrow> wire_in list \<Rightarrow> run" where
  "handle_our_unilateral E tx tx_blockheight' txid' keys our_wallet_pubkey to_self_delay
     feerate_per_kw local_dust_limit_satoshi htlcs htlc_sigs' outs' msgs =
     (case handle_our_unilateral_scan E tx tx_blockheight' txid' keys our_wallet_pubkey
             to_self_delay feerate_per_kw local_dust_limit_satoshi htlcs htlc_sigs' outs' of
        Inl e \<Rightarrow> Failed e
      | Inr st \<Rightarrow>
          wait_for_resolved E (outs st) [Onchain_init_reply ONCHAIND_OUR_UNILATERAL] msgs)"

definition handle_their_unilateral_scan ::
  "ext \<Rightarrow> bitcoin_tx \<Rightarrow> u32 \<Rightarrow> sha256_double \<Rightarrow> their_keys option \<Rightarrow> pubkey \<Rightarrow> u32 \<Rightarrow> u64 \<Rightarrow> u64
   \<Rightarrow> htlc_stub list \<Rightarrow> tracked_output list \<Rightarrow> fault + scan" where
  "handle_their_unilateral_scan E tx tx_blockheight' txid' keys our_wallet_pubkey to_self_delay
     feerate_per_kw local_dust_limit_satoshi htlcs outs' =
     (case outs' of
        [] \<Rightarrow> Inl OUT_OF_BOUNDS
      | funding # rest \<Rightarrow>
          (case init_feerate_range (satoshi funding) tx of
             Inl e \<Rightarrow> Inl e
           | Inr feerate_range \<Rightarrow>
               (case keys of
                  None \<Rightarrow> Inl ONCHAIN_CRYPTO_FAILED
                | Some k \<Rightarrow>
                    (case derive_htlc_scripts E htlcs REMOTE (their_keyset k) of
                       Inl e \<Rightarrow> Inl e
                     | Inr scripts \<Rightarrow>
                         handle_their_unilateral_loop E tx tx_blockheight' txid' k
                           our_wallet_pubkey feerate_per_kw local_dust_limit_satoshi htlcs 0
                           \<lparr>script_LOCAL = Some (scriptpubkey_p2wpkh E
                                                  (other_payment_key (their_keyset k))),
                            script_REMOTE = Some (scriptpubkey_p2wsh E
                                                   (to_self_wscript E to_self_delay
                                                      (their_keyset k))),
                            htlc_scripts = scripts, htlc_sigs = [],
                            fee_range = feerate_range,
                            outs = resolved_by_other funding txid' THEIR_UNILATERAL # rest\<rparr>))))"

definition handle_their_unilateral ::
  "ext \<Rightarrow> bitcoin_tx \<Rightarrow> u32 \<Rightarrow> sha256_double \<Rightarrow> their_keys option \<Rightarrow> pubkey \<Rightarrow> u32 \<Rightarrow> u64 \<Rightarrow> u64
   \<Rightarrow> htlc_stub list \<Rightarrow> tracked_output list \<Rightarrow> wire_in list \<Rightarrow> run" where
  "handle_their_unilateral E tx tx_blockheight' txid' keys our_wallet_pubkey to_self_delay
     feerate_per_kw local_dust_limit_satoshi htlcs outs' msgs =
     (case handle_their_unilateral_scan E tx tx_blockheight' txid' keys our_wallet_pubkey
             to_self_delay feerate_per_kw local_dust_limit_satoshi htlcs outs' of
        Inl e \<Rightarrow> Failed e
      | Inr st \<Rightarrow>
          wait_for_resolved E (outs st) [Onchain_init_reply ONCHAIND_THEIR_UNILATERAL] msgs)"

text \<open>The store \<open>main\<close> hands to the handlers: the funding output alone, taken from
  \<open>tx->input[0]\<close> of the transaction that spends it.\<close>

definition main_outs :: "bitcoin_tx \<Rightarrow> u64 \<Rightarrow> fault + tracked_output list" where
  "main_outs tx funding_amount_satoshi =
     (case tx_input tx of
        [] \<Rightarrow> Inl OUT_OF_BOUNDS
      | inp # rest \<Rightarrow>
          Inr [new_tracked_output (in_txid inp) 0 FUNDING_TRANSACTION (in_index inp)
                 funding_amount_satoshi FUNDING_OUTPUT])"


section \<open>Notions used to state the properties\<close>

text \<open>The closing scriptpubkey of a side, for \<open>is_mutual_close\<close>.\<close>

definition closing_scriptpubkey :: "bytes \<Rightarrow> bytes \<Rightarrow> side \<Rightarrow> bytes" where
  "closing_scriptpubkey local_scriptpubkey remote_scriptpubkey s =
     (case s of LOCAL \<Rightarrow> local_scriptpubkey | REMOTE \<Rightarrow> remote_scriptpubkey)"

text \<open>
  The condition on a transaction that every output pays the local or the remote closing
  scriptpubkey and that each of the two scriptpubkeys is paid by at most one output.
\<close>

definition pays_closing_scripts_once :: "bitcoin_tx \<Rightarrow> bytes \<Rightarrow> bytes \<Rightarrow> bool" where
  "pays_closing_scripts_once tx local_scriptpubkey remote_scriptpubkey =
     (list_all (\<lambda>spk. spk = local_scriptpubkey \<or> spk = remote_scriptpubkey)
        (map script (tx_output tx))
      \<and> count_list (map script (tx_output tx)) local_scriptpubkey \<le> 1
      \<and> count_list (map script (tx_output tx)) remote_scriptpubkey \<le> 1)"



text \<open>A tracked output is resolved or carries a proposal; a store in which every output
  that is still unresolved carries a proposal.\<close>

definition has_proposal_or_resolved :: "tracked_output \<Rightarrow> bool" where
  "has_proposal_or_resolved out = (resolved out \<noteq> None \<or> proposal out \<noteq> None)"

definition unresolved_have_proposal :: "tracked_output list \<Rightarrow> bool" where
  "unresolved_have_proposal os = list_all has_proposal_or_resolved os"

section \<open>Concrete inputs\<close>

text \<open>
  A small implementation of the library functions, used to run the daemon on concrete
  inputs. A P2WSH script is \<open>0, 32\<close> followed by the hash of the witness script; a
  signature is valid for a transaction when it lists the low bytes of its output amounts.
\<close>

definition ext_ex :: ext where
  "ext_ex =
     \<lparr>bitcoin_txid = (\<lambda>tx. [ucast (lock_time tx)]),
      measure_tx_cost = (\<lambda>tx. 400),
      scriptpubkey_p2wpkh = (\<lambda>key. 0 # 20 # key),
      scriptpubkey_p2wsh = (\<lambda>wscript. 0 # 32 # wscript),
      to_self_wscript = (\<lambda>delay ks. 99 # self_delayed_payment_key ks),
      is_p2wsh = (\<lambda>spk. take 2 spk = [0, 32]),
      sha256 = (\<lambda>data. data),
      sign_tx_input = (\<lambda>tx wscript priv pub. priv),
      check_tx_sig = (\<lambda>tx wscript pub sig.
                        map (\<lambda>outp. ucast (amount outp)) (tx_output tx) = sig),
      bitcoin_witness_secret = (\<lambda>sig wscript. [sig, [], wscript]),
      bitcoin_htlc_offer_spend_timeout =
        (\<lambda>localsig remotesig wscript. [Nil, remotesig, localsig, Nil, wscript]),
      bitcoin_wscript_htlc_offer_ripemd160 = (\<lambda>k1 k2 rip k3. 1 # rip),
      htlc_offered_wscript = (\<lambda>rip ks. 1 # rip),
      htlc_received_wscript = (\<lambda>rip ltime ks. 2 # rip),
      blocks_to_abs_locktime = (\<lambda>blocks. if blocks < 500000000 then Some blocks else None),
      htlc_timeout_tx = (\<lambda>txid' outnum' msat cltv delay feerate ks.
         \<lparr>tx_input = [\<lparr>in_txid = txid', in_index = outnum', sequence_number = 0,
                        in_amount = Some (msat div 1000), witness = None\<rparr>],
          tx_output = [\<lparr>amount = msat div 1000, script = []\<rparr>],
          lock_time = cltv\<rparr>)\<rparr>"

text \<open>A store after our own unilateral close: the funding output resolved by the
  commitment transaction, now 100 deep, and our delayed output, which has a proposal
  (to be spent after 144 blocks) and no resolution yet.\<close>

definition c1_outs :: "tracked_output list" where
  "c1_outs =
     [(new_tracked_output [1] 0 FUNDING_TRANSACTION 0 100000 FUNDING_OUTPUT)
        \<lparr>resolved := Some \<lparr>r_txid = [2], depth = 100, r_tx_type = OUR_UNILATERAL\<rparr>\<rparr>,
      propose_resolution
        (new_tracked_output [2] 500 OUR_UNILATERAL 0 90000 DELAYED_OUTPUT_TO_US)
        None 144 OUR_UNILATERAL_TO_US_RETURN_TO_WALLET]"

text \<open>A store with one output, resolved at depth 10 by transaction \<open>[2]\<close>.\<close>

definition c5_outs :: "tracked_output list" where
  "c5_outs =
     [(new_tracked_output [1] 0 FUNDING_TRANSACTION 0 100000 FUNDING_OUTPUT)
        \<lparr>resolved := Some \<lparr>r_txid = [2], depth = 10, r_tx_type = MUTUAL_CLOSE\<rparr>\<rparr>]"

text \<open>An HTLC output of 1023 satoshi: with a feerate of 1000, a cost of 400 and an empty
  witness script the fee is 477, and 1023 is exactly the dust limit 546 plus the fee.\<close>

definition c7_out :: tracked_output where
  "c7_out = new_tracked_output [2] 500 THEIR_UNILATERAL 0 1023 OUR_HTLC"

text \<open>Keys for the examples.\<close>

definition ex_keyset :: keyset where
  "ex_keyset = \<lparr>self_revocation_key = [4], self_delayed_payment_key = [5],
                 self_payment_key = [6], other_payment_key = [8]\<rparr>"

definition ex_their_keys :: their_keys where
  "ex_their_keys = \<lparr>their_keyset = ex_keyset, their_local_payment_privkey = [11]\<rparr>"

definition ex_our_keys :: our_keys where
  "ex_our_keys = \<lparr>keyset = ex_keyset, local_delayedprivkey = [10],
                   local_payment_privkey = [11]\<rparr>"

text \<open>The store \<open>main\<close> builds for a funding output \<open>[1]:0\<close> of 100000 satoshi.\<close>

definition ex_funding :: "tracked_output list" where
  "ex_funding = [new_tracked_output [1] 0 FUNDING_TRANSACTION 0 100000 FUNDING_OUTPUT]"

text \<open>
  The counterparty's commitment with two HTLCs. The first, offered by them, is trimmed
  and has no output; the second, offered by us with expiry 600, is output 0 (its script
  is the P2WSH of the received-HTLC script \<open>[2, 7]\<close>).
\<close>

definition c2_htlcs :: "htlc_stub list" where
  "c2_htlcs = [\<lparr>cltv_expiry = 500, ripemd = [9], owner = REMOTE\<rparr>,
               \<lparr>cltv_expiry = 600, ripemd = [7], owner = LOCAL\<rparr>]"

definition c2_tx :: bitcoin_tx where
  "c2_tx = \<lparr>tx_input = [\<lparr>in_txid = [1], in_index = 0, sequence_number = 0,
                          in_amount = None, witness = None\<rparr>],
            tx_output = [\<lparr>amount = 20000, script = [0, 32, 2, 7]\<rparr>],
            lock_time = 3\<rparr>"




text \<open>
  Two commitments with two outputs each that pay the same script: on the counterparty's
  commitment the script of \<open>script[REMOTE]\<close> (the P2WSH of their delayed script), on
  ours the script of \<open>script[REMOTE]\<close> (the P2WPKH of their payment key).
\<close>

definition c4_their_tx :: bitcoin_tx where
  "c4_their_tx = \<lparr>tx_input = [\<lparr>in_txid = [1], in_index = 0, sequence_number = 0,
                          in_amount = None, witness = None\<rparr>],
            tx_output = [\<lparr>amount = 40000, script = [0, 32, 99, 5]\<rparr>,
                         \<lparr>amount = 50000, script = [0, 32, 99, 5]\<rparr>],
            lock_time = 3\<rparr>"

definition c4_our_tx :: bitcoin_tx where
  "c4_our_tx = \<lparr>tx_input = [\<lparr>in_txid = [1], in_index = 0, sequence_number = 0,
                          in_amount = None, witness = None\<rparr>],
            tx_output = [\<lparr>amount = 40000, script = [0, 20, 8]\<rparr>,
                         \<lparr>amount = 50000, script = [0, 20, 8]\<rparr>],
            lock_time = 3\<rparr>"

text \<open>Messages after the counterparty's close \<open>c2_tx\<close>: a depth update for the commitment
  and the spend of an output the daemon does not track.\<close>

definition c10_msgs :: "wire_in list" where
  "c10_msgs = [Onchain_depth [3] 10,
               Onchain_spent \<lparr>tx_input = [\<lparr>in_txid = [3], in_index = 7, sequence_number = 0,
                                  in_amount = None, witness = None\<rparr>],
                    tx_output = [], lock_time = 77\<rparr> 0 470]"

text \<open>Two closing transactions with two outputs: one whose outputs pay the same
  scriptpubkey \<open>[7]\<close>, one whose outputs pay \<open>[8]\<close> and \<open>[7]\<close>.\<close>

definition c9_tx :: bitcoin_tx where
  "c9_tx = \<lparr>tx_input = [\<lparr>in_txid = [1], in_index = 0, sequence_number = 0,
                          in_amount = None, witness = None\<rparr>],
            tx_output = [\<lparr>amount = 40000, script = [7]\<rparr>,
                         \<lparr>amount = 50000, script = [7]\<rparr>],
            lock_time = 0\<rparr>"

definition c9_tx_distinct :: bitcoin_tx where
  "c9_tx_distinct = \<lparr>tx_input = [\<lparr>in_txid = [1], in_index = 0, sequence_number = 0,
                          in_amount = None, witness = None\<rparr>],
            tx_output = [\<lparr>amount = 40000, script = [8]\<rparr>,
                         \<lparr>amount = 50000, script = [7]\<rparr>],
            lock_time = 0\<rparr>"

section \<open>Properties\<close>

subsection \<open>The termination predicate of the loop\<close>

lemma all_irrevocably_resolved_iff:
  "all_irrevocably_resolved os \<longleftrightarrow>
     (\<forall>out \<in> set os. \<forall>r. resolved out = Some r \<longrightarrow> 100 \<le> depth r)"
  by (induction os) (auto split: option.splits simp: not_less)

text \<open>
  C1. The claim: \<open>all_irrevocably_resolved\<close> holds exactly when every tracked output has
  a resolution of depth at least 100, so \<open>wait_for_resolved\<close> exits only then. The code
  skips an output that has no resolution: on the store \<open>c1_outs\<close>, whose second output is
  unresolved, the predicate is true and \<open>wait_for_resolved\<close> returns at once, whatever
  messages are pending.
\<close>

theorem all_irrevocably_resolved_skips_unresolved:
  "all_irrevocably_resolved c1_outs \<and> resolved (c1_outs ! 1) = None
   \<and> wait_for_resolved E c1_outs sent msgs = Exited c1_outs sent"
proof -
  have a: "all_irrevocably_resolved c1_outs"
    by (simp add: c1_outs_def new_tracked_output_def propose_resolution_def)
  have b: "resolved (c1_outs ! 1) = None"
    by (simp add: c1_outs_def new_tracked_output_def propose_resolution_def)
  from a have "wait_for_resolved E c1_outs sent msgs = Exited c1_outs sent"
    by (cases msgs) simp_all
  with a b show ?thesis by simp
qed

subsection \<open>Depth updates\<close>

lemma tx_new_depth_step_total: "\<exists>out' sent. tx_new_depth_step out t d = Inr (out', sent)"
  by (auto simp: tx_new_depth_step_def proposal_meets_depth_def split: option.splits)

lemma tx_new_depth_step_resolved:
  "tx_new_depth_step out t d = Inr (out', sent) \<Longrightarrow> resolved out = Some r
   \<Longrightarrow> resolved out' = Some (if r_txid r = t then r\<lparr>depth := d\<rparr> else r)"
  by (auto simp: tx_new_depth_step_def split: if_splits)

text \<open>
  C5, as stated: a depth update never lowers the depth of a resolved output. It fails:
  \<open>tx_new_depth\<close> stores the depth it is given, so an update to depth 5 for the
  transaction that resolved an output at depth 10 leaves it at depth 5.
\<close>

theorem tx_new_depth_can_lower_depth:
  "map (map_option depth \<circ> resolved) c5_outs = [Some 10]
   \<and> map_sum id (map (map_option depth \<circ> resolved) \<circ> fst) (tx_new_depth c5_outs [2] 5)
       = Inr [Some 5]"
  by (simp add: c5_outs_def new_tracked_output_def tx_new_depth_step_def)

text \<open>
  C5, amended: \<open>tx_new_depth\<close> always returns, keeps the store's length, and leaves every
  resolved output resolved by the same transaction and with the same type; its depth
  becomes the reported depth when the update is for its resolving transaction and is
  unchanged otherwise. So the depth of a resolved output does not decrease as long as the
  parent never reports a smaller depth for the same transaction.
\<close>

theorem tx_new_depth_resolved:
  "\<exists>os' sent. tx_new_depth os t d = Inr (os', sent) \<and> length os' = length os
     \<and> (\<forall>i < length os. \<forall>r. resolved (os ! i) = Some r \<longrightarrow>
           resolved (os' ! i) = Some (if r_txid r = t then r\<lparr>depth := d\<rparr> else r))"
proof (induction os)
  case Nil
  then show ?case by simp
next
  case (Cons out os)
  obtain out' s1 where st: "tx_new_depth_step out t d = Inr (out', s1)"
    using tx_new_depth_step_total by blast
  from Cons obtain os' s2
    where rest: "tx_new_depth os t d = Inr (os', s2)" "length os' = length os"
      and ih: "\<forall>i < length os. \<forall>r. resolved (os ! i) = Some r \<longrightarrow>
                 resolved (os' ! i) = Some (if r_txid r = t then r\<lparr>depth := d\<rparr> else r)"
    by blast
  have "\<forall>i < length (out # os). \<forall>r. resolved ((out # os) ! i) = Some r \<longrightarrow>
          resolved ((out' # os') ! i) = Some (if r_txid r = t then r\<lparr>depth := d\<rparr> else r)"
  proof (intro allI impI)
    fix i r
    assume "i < length (out # os)" "resolved ((out # os) ! i) = Some r"
    then show "resolved ((out' # os') ! i)
                 = Some (if r_txid r = t then r\<lparr>depth := d\<rparr> else r)"
      using tx_new_depth_step_resolved[OF st] ih by (cases i) auto
  qed
  with st rest show ?case by simp
qed

theorem tx_new_depth_resolved_witness:
  "\<exists>os' sent. tx_new_depth c5_outs [2] 20 = Inr (os', sent) \<and> length os' = 1
     \<and> resolved (os' ! 0) = Some \<lparr>r_txid = [2], depth = 20, r_tx_type = MUTUAL_CLOSE\<rparr>"
  using tx_new_depth_resolved [of c5_outs "[2]" 20]
  by (auto simp: c5_outs_def new_tracked_output_def)

subsection \<open>Proposals\<close>

text \<open>
  C6. \<open>propose_resolution_at_block\<close> sets a proposal whose \<open>depth_required\<close> is
  \<open>max(0, block_required - out.tx_blockheight)\<close>, read as unsigned numbers: 0 when the
  block is below the output's height, never negative.
\<close>

theorem propose_resolution_at_block_depth_required:
  "\<exists>p. proposal (propose_resolution_at_block out tx block_required tt) = Some p
      \<and> p_tx p = tx \<and> p_tx_type p = tt
      \<and> uint (depth_required p) = max 0 (uint block_required - uint (tx_blockheight out))"
proof (cases "block_required < tx_blockheight out")
  case True
  then have "uint block_required < uint (tx_blockheight out)"
    by (simp add: word_less_def)
  with True show ?thesis
    by (simp add: propose_resolution_at_block_def propose_resolution_def)
next
  case False
  then have le: "uint (tx_blockheight out) \<le> uint block_required"
    by (simp add: word_less_def)
  then have "uint (block_required - tx_blockheight out)
               = uint block_required - uint (tx_blockheight out)"
    by (simp add: uint_sub_lem)
  with False le show ?thesis
    by (simp add: propose_resolution_at_block_def propose_resolution_def)
qed

subsection \<open>The single-stage sweep\<close>

text \<open>
  C7, as stated: the output is dropped whenever the input amount is at most the dust limit
  plus the fee. It fails at equality: for an input of 1023 satoshi, a dust limit of 546
  and a fee of 477 the output is kept, with the dust limit as its amount.
\<close>

theorem tx_to_us_keeps_output_at_dust_plus_fee:
  "satoshi c7_out \<le> 546 + tx_to_us_fee ext_ex (tx_to_us_unsigned ext_ex c7_out 0 600 []) 1000 []
   \<and> tx_output (tx_to_us ext_ex c7_out 0 600 1000 546 [] [] [] [])
       = [\<lparr>amount = 546, script = [0, 20]\<rparr>]"
  by (simp add: tx_to_us_def tx_to_us_fee_def tx_to_us_unsigned_def ext_ex_def c7_out_def
      new_tracked_output_def Let_def)

text \<open>
  C7, amended: with the fee \<open>feerate * (cost + 1 + 3 + 73 + len(wscript)) / 1000\<close>
  computed in 64 bits, the transaction has no output when the input amount is strictly
  below the dust limit plus the fee; otherwise (equality included) it has the one output
  to our wallet key, of the input amount minus the fee.
\<close>

theorem tx_to_us_output:
  "tx_output (tx_to_us E out to_self_delay locktime feerate dust_limit wscript wallet priv pub) =
     (if satoshi out
           < dust_limit
             + tx_to_us_fee E (tx_to_us_unsigned E out to_self_delay locktime wallet) feerate wscript
      then []
      else [\<lparr>amount = satoshi out
                       - tx_to_us_fee E (tx_to_us_unsigned E out to_self_delay locktime wallet)
                           feerate wscript,
             script = scriptpubkey_p2wpkh E wallet\<rparr>])"
  by (simp add: tx_to_us_def Let_def tx_to_us_unsigned_def)

subsection \<open>Narrowing the feerate range\<close>

text \<open>
  C8. For every range, fee and multiplier, \<open>narrow_feerate_range\<close> only shrinks the
  interval: the new minimum is at least the old one and the new maximum at most the old
  one. The only call that does not return a range is the one with multiplier 0, where the
  C code divides by zero.
\<close>

theorem narrow_feerate_range_shrinks:
  "case narrow_feerate_range r fee multiplier of
     Inl e \<Rightarrow> e = DIVISION_BY_ZERO \<and> multiplier = 0
   | Inr r' \<Rightarrow> fr_min r \<le> fr_min r' \<and> fr_max r' \<le> fr_max r"
  by (auto simp: narrow_feerate_range_def Let_def)

subsection \<open>Recognising a mutual close\<close>

lemma distinct_sides:
  "distinct (ms :: side list) \<longleftrightarrow> ms \<in> {[], [LOCAL], [REMOTE], [LOCAL, REMOTE], [REMOTE, LOCAL]}"
proof
  assume d: "distinct ms"
  have u: "set ms \<subseteq> {LOCAL, REMOTE}"
    using side.exhaust by auto
  from d have "length ms = card (set ms)" by (simp add: distinct_card)
  also have "\<dots> \<le> card {LOCAL, REMOTE}" using u by (intro card_mono) auto
  finally have len: "length ms \<le> 2" by simp
  show "ms \<in> {[], [LOCAL], [REMOTE], [LOCAL, REMOTE], [REMOTE, LOCAL]}"
  proof (cases ms)
    case Nil then show ?thesis by simp
  next
    case (Cons a as)
    note c1 = this
    show ?thesis
    proof (cases as)
      case Nil with c1 show ?thesis by (cases a) auto
    next
      case (Cons b bs)
      with c1 len have "bs = []" by simp
      with c1 Cons d show ?thesis by (cases a; cases b) auto
    qed
  qed
qed (auto simp: )

lemma is_mutual_close_from_both: "is_mutual_close_from os l r True True \<longleftrightarrow> os = []"
  by (cases os) auto

lemma is_mutual_close_from_local: "is_mutual_close_from os l r True False \<longleftrightarrow> map script os \<in> {[], [r]}"
  by (cases os) (auto simp: is_mutual_close_from_both)

lemma is_mutual_close_from_remote: "is_mutual_close_from os l r False True \<longleftrightarrow> map script os \<in> {[], [l]}"
  by (cases os) (auto simp: is_mutual_close_from_both)

lemma is_mutual_close_from_none: "is_mutual_close_from os l r False False \<longleftrightarrow> map script os \<in> {[], [l], [r], [l, r], [r, l]}"
  by (cases os) (auto simp: is_mutual_close_from_local is_mutual_close_from_remote)

lemma closing_assignment_iff:
  "(\<exists>ms. distinct ms \<and> xs = map (closing_scriptpubkey l r) ms)
      \<longleftrightarrow> xs \<in> {[], [l], [r], [l, r], [r, l]}"
proof
  assume "\<exists>ms. distinct ms \<and> xs = map (closing_scriptpubkey l r) ms"
  then obtain ms where d: "distinct ms" and x: "xs = map (closing_scriptpubkey l r) ms"
    by blast
  from d have "ms = [] \<or> ms = [LOCAL] \<or> ms = [REMOTE] \<or> ms = [LOCAL, REMOTE] \<or> ms = [REMOTE, LOCAL]"
    by (simp add: distinct_sides)
  with x show "xs \<in> {[], [l], [r], [l, r], [r, l]}"
    by (elim disjE) (simp_all add: closing_scriptpubkey_def)
next
  assume "xs \<in> {[], [l], [r], [l, r], [r, l]}"
  then consider "xs = []" | "xs = [l]" | "xs = [r]" | "xs = [l, r]" | "xs = [r, l]"
    by auto
  then show "\<exists>ms. distinct ms \<and> xs = map (closing_scriptpubkey l r) ms"
  proof cases
    case 1
    then have "distinct ([] :: side list) \<and> xs = map (closing_scriptpubkey l r) []" by simp
    then show ?thesis by blast
  next
    case 2
    then have "distinct [LOCAL] \<and> xs = map (closing_scriptpubkey l r) [LOCAL]"
      by (simp add: closing_scriptpubkey_def)
    then show ?thesis by blast
  next
    case 3
    then have "distinct [REMOTE] \<and> xs = map (closing_scriptpubkey l r) [REMOTE]"
      by (simp add: closing_scriptpubkey_def)
    then show ?thesis by blast
  next
    case 4
    then have "distinct [LOCAL, REMOTE] \<and> xs = map (closing_scriptpubkey l r) [LOCAL, REMOTE]"
      by (simp add: closing_scriptpubkey_def)
    then show ?thesis by blast
  next
    case 5
    then have "distinct [REMOTE, LOCAL] \<and> xs = map (closing_scriptpubkey l r) [REMOTE, LOCAL]"
      by (simp add: closing_scriptpubkey_def)
    then show ?thesis by blast
  qed
qed

text \<open>
  The loop gives each of the two sides one match: \<open>is_mutual_close\<close> is true exactly
  when the outputs can be matched to the sides, every output paying the scriptpubkey of
  the side it is matched to and no side being matched twice.
\<close>

lemma is_mutual_close_matching:
  "is_mutual_close tx local_scriptpubkey remote_scriptpubkey \<longleftrightarrow>
     (\<exists>ms. distinct ms
         \<and> map script (tx_output tx)
             = map (closing_scriptpubkey local_scriptpubkey remote_scriptpubkey) ms)"
  by (simp add: is_mutual_close_def is_mutual_close_from_none closing_assignment_iff)

lemma count_two_sides:
  "l \<noteq> r \<Longrightarrow> list_all (\<lambda>x. x = l \<or> x = r) xs \<Longrightarrow> length xs = count_list xs l + count_list xs r"
  by (induction xs) auto

lemma length_le_2_cases:
  "length xs \<le> 2 \<Longrightarrow> xs = [] \<or> (\<exists>a. xs = [a]) \<or> (\<exists>a b. xs = [a, b])"
proof (cases xs)
  case Nil
  then show ?thesis by simp
next
  case (Cons a as)
  assume "length xs \<le> 2"
  with Cons have "length as \<le> 1" by simp
  then have "as = [] \<or> (\<exists>b. as = [b])" by (cases as) auto
  with Cons show ?thesis by auto
qed

lemma closing_scripts_once_distinct:
  assumes "l \<noteq> r"
  shows "xs \<in> {[], [l], [r], [l, r], [r, l]} \<longleftrightarrow>
     (list_all (\<lambda>x. x = l \<or> x = r) xs \<and> count_list xs l \<le> 1 \<and> count_list xs r \<le> 1)"
proof
  assume "xs \<in> {[], [l], [r], [l, r], [r, l]}"
  then have "xs = [] \<or> xs = [l] \<or> xs = [r] \<or> xs = [l, r] \<or> xs = [r, l]" by simp
  then show "list_all (\<lambda>x. x = l \<or> x = r) xs \<and> count_list xs l \<le> 1 \<and> count_list xs r \<le> 1"
    using assms by (elim disjE) simp_all
next
  assume a: "list_all (\<lambda>x. x = l \<or> x = r) xs \<and> count_list xs l \<le> 1 \<and> count_list xs r \<le> 1"
  with count_two_sides[OF assms, of xs] have "length xs \<le> 2" by simp
  from length_le_2_cases[OF this] show "xs \<in> {[], [l], [r], [l, r], [r, l]}"
  proof (elim disjE exE)
    assume "xs = []" then show ?thesis by simp
  next
    fix x assume "xs = [x]" with a show ?thesis by auto
  next
    fix x y assume "xs = [x, y]" with a assms show ?thesis by (auto split: if_splits)
  qed
qed

lemma closing_scripts_same:
  "xs \<in> {[], [l], [l], [l, l], [l, l]} \<longleftrightarrow> (list_all (\<lambda>x. x = l) xs \<and> length xs \<le> 2)"
proof
  assume "xs \<in> {[], [l], [l], [l, l], [l, l]}"
  then have "xs = [] \<or> xs = [l] \<or> xs = [l, l]" by simp
  then show "list_all (\<lambda>x. x = l) xs \<and> length xs \<le> 2" by (elim disjE) simp_all
next
  assume a: "list_all (\<lambda>x. x = l) xs \<and> length xs \<le> 2"
  then have "length xs \<le> 2" by simp
  from length_le_2_cases[OF this] show "xs \<in> {[], [l], [l], [l, l], [l, l]}"
  proof (elim disjE exE)
    assume "xs = []" then show ?thesis by simp
  next
    fix x assume "xs = [x]" with a show ?thesis by simp
  next
    fix x y assume "xs = [x, y]" with a show ?thesis by simp
  qed
qed

text \<open>
  C9, as stated: for every pair of closing scriptpubkeys, \<open>is_mutual_close\<close> is true
  exactly when every output pays one of the two and each of the two is paid by at most
  one output. It fails when the two scriptpubkeys are the same bytes: on \<open>c9_tx\<close>, with
  \<open>[7]\<close> as both the local and the remote scriptpubkey, the first output takes the local
  match and the second the remote one, so the result is true although \<open>[7]\<close> is paid by
  two outputs.
\<close>

theorem is_mutual_close_same_scriptpubkey_twice:
  "is_mutual_close c9_tx [7] [7] \<and> count_list (map script (tx_output c9_tx)) [7] = 2
   \<and> \<not> pays_closing_scripts_once c9_tx [7] [7]"
  by (simp add: is_mutual_close_def c9_tx_def pays_closing_scripts_once_def)

text \<open>
  C9, amended: when the local and the remote closing scriptpubkey differ,
  \<open>is_mutual_close\<close> is true exactly when every output pays one of the two and each of
  the two is paid by at most one output; when they are the same, it is true exactly when
  the transaction has at most two outputs and every output pays that scriptpubkey.
\<close>

theorem is_mutual_close_iff_once:
  "is_mutual_close tx local_scriptpubkey remote_scriptpubkey \<longleftrightarrow>
     (if local_scriptpubkey = remote_scriptpubkey
      then list_all (\<lambda>spk. spk = local_scriptpubkey) (map script (tx_output tx))
           \<and> length (tx_output tx) \<le> 2
      else pays_closing_scripts_once tx local_scriptpubkey remote_scriptpubkey)"
proof (cases "local_scriptpubkey = remote_scriptpubkey")
  case True
  have "is_mutual_close tx local_scriptpubkey local_scriptpubkey \<longleftrightarrow>
      map script (tx_output tx) \<in> {[], [local_scriptpubkey], [local_scriptpubkey],
         [local_scriptpubkey, local_scriptpubkey], [local_scriptpubkey, local_scriptpubkey]}"
    by (simp only: is_mutual_close_def is_mutual_close_from_none)
  also have "\<dots> \<longleftrightarrow> list_all (\<lambda>spk. spk = local_scriptpubkey) (map script (tx_output tx))
           \<and> length (map script (tx_output tx)) \<le> 2"
    by (rule closing_scripts_same)
  finally show ?thesis using True by simp
next
  case False
  have "is_mutual_close tx local_scriptpubkey remote_scriptpubkey \<longleftrightarrow>
      map script (tx_output tx) \<in> {[], [local_scriptpubkey], [remote_scriptpubkey],
         [local_scriptpubkey, remote_scriptpubkey], [remote_scriptpubkey, local_scriptpubkey]}"
    by (simp only: is_mutual_close_def is_mutual_close_from_none)
  also have "\<dots> \<longleftrightarrow> pays_closing_scripts_once tx local_scriptpubkey remote_scriptpubkey"
    unfolding pays_closing_scripts_once_def by (rule closing_scripts_once_distinct[OF False])
  finally show ?thesis using False by simp
qed

theorem is_mutual_close_iff_once_witness:
  "is_mutual_close c9_tx_distinct [7] [8] \<and> pays_closing_scripts_once c9_tx_distinct [7] [8]
   \<and> \<not> is_mutual_close c9_tx [7] [8]"
proof -
  have a: "pays_closing_scripts_once c9_tx_distinct [7] [8]"
    by (simp add: pays_closing_scripts_once_def c9_tx_distinct_def)
  have b: "\<not> pays_closing_scripts_once c9_tx [7] [8]"
    by (simp add: pays_closing_scripts_once_def c9_tx_def)
  from a b is_mutual_close_iff_once [of c9_tx_distinct "[7]" "[8]"]
    is_mutual_close_iff_once [of c9_tx "[7]" "[8]"]
  show ?thesis by simp
qed

subsection \<open>Single-shot matchers\<close>

text \<open>
  C4. The claim: in both handlers a matcher that has matched an output is nullified and
  cannot match a later one. \<open>handle_their_unilateral\<close> does not nullify
  \<open>script[REMOTE]\<close>: on \<open>c4_their_tx\<close> both outputs match it, both are tracked as
  \<open>DELAYED_OUTPUT_TO_THEM\<close>, and the matcher is still set after the loop.
  \<open>handle_our_unilateral\<close> nullifies it: on \<open>c4_our_tx\<close> the second output finds no
  matcher and the handler fails.
\<close>

theorem handle_their_unilateral_rematches_script_REMOTE:
  "map_sum id (\<lambda>st. (script_REMOTE st, map output_type (outs st)))
     (handle_their_unilateral_scan ext_ex c4_their_tx 450 [3] (Some ex_their_keys) [12] 144
        1000 546 [] ex_funding)
     = Inr (Some [0, 32, 99, 5],
            [FUNDING_OUTPUT, DELAYED_OUTPUT_TO_THEM, DELAYED_OUTPUT_TO_THEM])
   \<and> handle_our_unilateral_scan ext_ex c4_our_tx 450 [3] (Some ex_our_keys) [12] 144 1000 546
        [] [] ex_funding
     = Inl ONCHAIN_INTERNAL_ERROR"
  by (simp add: handle_their_unilateral_scan_def handle_our_unilateral_scan_def ex_funding_def
      new_tracked_output_def init_feerate_range_def c4_their_tx_def c4_our_tx_def ext_ex_def
      ex_their_keys_def ex_our_keys_def ex_keyset_def handle_their_unilateral_loop.simps
      handle_our_unilateral_loop.simps match_htlc_output_def propose_resolution_def
      tx_to_us_def tx_to_us_unsigned_def tx_to_us_fee_def Let_def resolved_by_other_def
      ignore_output_def)

subsection \<open>Our HTLCs on their commitment\<close>

text \<open>
  C2. The claim: an output that matches HTLC script \<open>j\<close> is resolved with HTLC stub
  \<open>j\<close>. The code passes \<open>&htlcs[i]\<close>, indexed by the output number. On \<open>c2_tx\<close> the
  only output (number 0) matches the script of HTLC 1, whose expiry is 600; the proposal
  is built from HTLC 0, whose expiry is 500: the sweep has locktime 500 and the proposal
  waits 50 blocks from height 450, not 150.
\<close>

theorem handle_their_unilateral_indexes_htlc_by_output:
  "derive_htlc_scripts ext_ex c2_htlcs REMOTE (their_keyset ex_their_keys)
     = Inr [Some [1, 9], Some [2, 7]]
   \<and> match_htlc_output ext_ex c2_tx 0 [Some [1, 9], Some [2, 7]] = Some 1
   \<and> map cltv_expiry c2_htlcs = [500, 600]
   \<and> map_sum id
        (map (map_option (\<lambda>p. (depth_required p, map_option lock_time (p_tx p))) \<circ> proposal)
           \<circ> outs)
        (handle_their_unilateral_scan ext_ex c2_tx 450 [3] (Some ex_their_keys) [12] 144 1000 546
           c2_htlcs ex_funding)
       = Inr [None, Some (50, Some 500)]"
  by (simp add: handle_their_unilateral_scan_def ex_funding_def new_tracked_output_def
      init_feerate_range_def c2_tx_def c2_htlcs_def ext_ex_def ex_their_keys_def ex_keyset_def
      handle_their_unilateral_loop.simps match_htlc_output_def
      resolve_our_htlc_theircommit_def propose_resolution_at_block_def propose_resolution_def
      tx_to_us_def tx_to_us_unsigned_def tx_to_us_fee_def Let_def resolved_by_other_def
      ignore_output_def)

subsection \<open>Our HTLCs on our own commitment\<close>





















subsection \<open>Unresolved outputs carry a proposal\<close>

lemma unresolved_have_proposal_simps [simp]:
  "unresolved_have_proposal []"
  "unresolved_have_proposal (out # os) \<longleftrightarrow> has_proposal_or_resolved out \<and> unresolved_have_proposal os"
  "unresolved_have_proposal (os @ os') \<longleftrightarrow> unresolved_have_proposal os \<and> unresolved_have_proposal os'"
  by (simp_all add: unresolved_have_proposal_def)

lemma has_proposal_or_resolved_intros:
  "has_proposal_or_resolved (ignore_output out)"
  "has_proposal_or_resolved (propose_resolution out tx d tt)"
  "has_proposal_or_resolved (propose_resolution_at_block out tx b tt)"
  "has_proposal_or_resolved (resolved_by_other out t tt)"
  "has_proposal_or_resolved (unknown_spend E out tx')"
  "has_proposal_or_resolved (resolve_their_htlc out htlc)"
  "has_proposal_or_resolved (resolve_our_htlc_theircommit E out w htlc wallet priv ks f dust)"
  by (simp_all add: has_proposal_or_resolved_def ignore_output_def propose_resolution_def
      propose_resolution_at_block_def resolved_by_other_def unknown_spend_def
      resolve_their_htlc_def resolve_our_htlc_theircommit_def Let_def)

lemma resolve_our_htlc_ourcommit_proposal:
  "resolve_our_htlc_ourcommit E out w htlc d fr priv sig ks = Inr (out', fr')
   \<Longrightarrow> has_proposal_or_resolved out'"
  by (auto simp: resolve_our_htlc_ourcommit_def Let_def has_proposal_or_resolved_intros
      split: sum.splits list.splits prod.splits)

lemma tx_new_depth_step_inv:
  "tx_new_depth_step out t d = Inr (out', sent) \<Longrightarrow> has_proposal_or_resolved out
   \<Longrightarrow> has_proposal_or_resolved out'"
  by (auto simp: tx_new_depth_step_def proposal_meets_depth_def has_proposal_or_resolved_def
      ignore_output_def split: option.splits if_splits)

lemma tx_new_depth_step_no_fault: "tx_new_depth_step out t d \<noteq> Inl e"
  by (auto simp: tx_new_depth_step_def proposal_meets_depth_def split: option.splits)

lemma tx_new_depth_inv:
  "unresolved_have_proposal os \<Longrightarrow>
   (case tx_new_depth os t d of Inl e \<Rightarrow> False | Inr (os', sent) \<Rightarrow> unresolved_have_proposal os')"
proof (induction os)
  case Nil
  then show ?case by simp
next
  case (Cons out os)
  then show ?case
    using tx_new_depth_step_inv[of out t d] tx_new_depth_step_no_fault[of out t d]
    by (auto split: sum.splits prod.splits)
qed

lemma resolved_by_proposal_inv:
  "has_proposal_or_resolved out \<Longrightarrow> resolved out = None \<Longrightarrow>
   (case resolved_by_proposal E out t of Inl e \<Rightarrow> False
    | Inr (out', b) \<Rightarrow> proposal out' = proposal out \<and> output_type out' = output_type out
         \<and> (b \<longrightarrow> resolved out' \<noteq> None))"
  by (auto simp: resolved_by_proposal_def has_proposal_or_resolved_def split: option.splits)

lemma output_spent_from_inv:
  "unresolved_have_proposal os \<Longrightarrow>
   (case output_spent_from E os tx inp of Inl e \<Rightarrow> e \<noteq> NULL_DEREFERENCE
    | Inr (os', sent) \<Rightarrow> unresolved_have_proposal os')"
proof (induction os)
  case Nil
  then show ?case by simp
next
  case (Cons out os)
  show ?case
  proof (cases "resolved out \<noteq> None \<or> in_index inp \<noteq> outnum out \<or> in_txid inp \<noteq> txid out")
    case True
    with Cons show ?thesis by (auto split: sum.splits prod.splits)
  next
    case False
    then have u: "resolved out = None" by simp
    from Cons.prems have h: "has_proposal_or_resolved out" and rest: "unresolved_have_proposal os"
      by simp_all
    from resolved_by_proposal_inv[OF h u, of E "bitcoin_txid E tx"]
    obtain out' b where r: "resolved_by_proposal E out (bitcoin_txid E tx) = Inr (out', b)"
      and p: "proposal out' = proposal out" and b: "b \<longrightarrow> resolved out' \<noteq> None"
      by (auto split: sum.splits prod.splits)
    from h u p have h': "has_proposal_or_resolved out'"
      by (simp add: has_proposal_or_resolved_def)
    from False r h' rest show ?thesis
      by (cases "output_type out'") (simp_all add: has_proposal_or_resolved_intros)
  qed
qed

lemma output_spent_inv:
  "unresolved_have_proposal os \<Longrightarrow>
   (case output_spent E os tx n h of Inl e \<Rightarrow> e \<noteq> NULL_DEREFERENCE
    | Inr (os', sent) \<Rightarrow> unresolved_have_proposal os')"
  using output_spent_from_inv[of os E tx "tx_input tx ! unat n"]
  by (simp add: output_spent_def)

lemma wait_for_resolved_inv:
  "unresolved_have_proposal os \<Longrightarrow>
   (case wait_for_resolved E os sent msgs of
      Failed e \<Rightarrow> e \<noteq> NULL_DEREFERENCE
    | Reading os' sent' \<Rightarrow> unresolved_have_proposal os'
    | Exited os' sent' \<Rightarrow> unresolved_have_proposal os')"
proof (induction msgs arbitrary: os sent)
  case Nil
  then show ?case by simp
next
  case (Cons msg msgs)
  show ?case
  proof (cases "all_irrevocably_resolved os")
    case True
    with Cons.prems show ?thesis by simp
  next
    case False
    show ?thesis
    proof (cases msg)
      case (Onchain_depth t d)
      with False Cons.IH tx_new_depth_inv[OF Cons.prems, of t d] show ?thesis
        by (auto split: sum.splits prod.splits)
    next
      case (Onchain_spent tx n h)
      with False Cons.IH output_spent_inv[OF Cons.prems, of E tx n h] show ?thesis
        by (auto split: sum.splits prod.splits)
    next
      case (Onchain_known_preimage p)
      with False show ?thesis by simp
    next
      case Onchain_other
      with False show ?thesis by simp
    qed
  qed
qed

lemma match_htlc_output_from_Some:
  "match_htlc_output_from E spk hs k = Some j \<Longrightarrow> k \<le> j \<and> j - k < length hs \<and> hs ! (j - k) \<noteq> None"
proof (induction hs arbitrary: k)
  case Nil
  then show ?case by simp
next
  case (Cons h hs)
  show ?case
  proof (cases "h \<noteq> None \<and> drop 2 spk = sha256 E (the h)")
    case True
    with Cons.prems show ?thesis by (auto split: option.splits)
  next
    case False
    with Cons.prems have "match_htlc_output_from E spk hs (Suc k) = Some j"
      by (auto split: option.splits if_splits)
    from Cons.IH[OF this] show ?thesis
      by (auto simp: Suc_diff_le nth_Cons')
  qed
qed

lemma match_htlc_output_Some:
  "match_htlc_output E tx i hs = Some j \<Longrightarrow> j < length hs \<and> hs ! j \<noteq> None"
  using match_htlc_output_from_Some[of E _ hs 0 j] by (auto simp: match_htlc_output_def split: if_splits)


lemma resolve_our_htlc_ourcommit_loop_fault:
  "n = nat (i - uint fmin + 1) \<Longrightarrow>
   resolve_our_htlc_ourcommit_loop E out tx w ks sig fmin i prev \<noteq> Inl NULL_DEREFERENCE"
proof (induction n arbitrary: i tx prev)
  case 0
  then have "i < uint fmin" by simp
  then show ?case by (subst resolve_our_htlc_ourcommit_loop.simps) simp
next
  case (Suc n)
  then have n: "n = nat (i - 1 - uint fmin + 1)" and ge: "\<not> i < uint fmin" by simp_all
  show ?case
    by (subst resolve_our_htlc_ourcommit_loop.simps)
       (auto simp: ge Suc.IH[OF n] set_output0_amount_def split: sum.splits list.splits)
qed

lemma handle_our_unilateral_loop_inv:
  "n = length (tx_output tx) - i \<Longrightarrow> unresolved_have_proposal (outs st) \<Longrightarrow>
   handle_our_unilateral_loop E tx h t keys w wallet d f dust htlcs i st \<noteq> Inl NULL_DEREFERENCE
   \<and> (\<forall>st'. handle_our_unilateral_loop E tx h t keys w wallet d f dust htlcs i st = Inr st'
         \<longrightarrow> unresolved_have_proposal (outs st'))"
proof (induction n arbitrary: i st)
  case 0
  then show ?case
    by (subst (1 2) handle_our_unilateral_loop.simps) simp
next
  case (Suc n)
  then have n: "n = length (tx_output tx) - Suc i" and lt: "i < length (tx_output tx)" by simp_all
  note IH = Suc.IH[OF n]
  note inv = Suc.prems(2)
  let ?loop = "handle_our_unilateral_loop E tx h t keys w wallet d f dust htlcs"
  show ?case
  proof (cases "script_LOCAL st = Some (script (tx_output tx ! i))")
    case True
    let ?out = "propose_resolution
                  (new_tracked_output t h OUR_UNILATERAL (of_nat i)
                     (amount (tx_output tx ! i)) DELAYED_OUTPUT_TO_US)
                  (Some (tx_to_us E
                     (new_tracked_output t h OUR_UNILATERAL (of_nat i)
                        (amount (tx_output tx ! i)) DELAYED_OUTPUT_TO_US)
                     d 0 f dust w wallet (local_delayedprivkey keys)
                     (self_delayed_payment_key (keyset keys))))
                  d OUR_UNILATERAL_TO_US_RETURN_TO_WALLET"
    from lt True have eq: "?loop i st = ?loop (Suc i) (st\<lparr>outs := outs st @ [?out], script_LOCAL := None\<rparr>)"
      by (subst handle_our_unilateral_loop.simps) (simp add: Let_def)
    show ?thesis unfolding eq by (rule IH) (simp add: inv has_proposal_or_resolved_intros)
  next
    case nl: False
    show ?thesis
    proof (cases "script_REMOTE st = Some (script (tx_output tx ! i))")
      case True
      let ?out = "ignore_output (new_tracked_output t h OUR_UNILATERAL (of_nat i)
                     (amount (tx_output tx ! i)) OUTPUT_TO_THEM)"
      from lt nl True have eq: "?loop i st = ?loop (Suc i) (st\<lparr>outs := outs st @ [?out], script_REMOTE := None\<rparr>)"
        by (subst handle_our_unilateral_loop.simps) (simp add: Let_def)
      show ?thesis unfolding eq by (rule IH) (simp add: inv has_proposal_or_resolved_intros)
    next
      case nr: False
      show ?thesis
      proof (cases "match_htlc_output E tx i (htlc_scripts st)")
        case None
        with lt nl nr show ?thesis
          by (subst (1 2) handle_our_unilateral_loop.simps) simp
      next
        case (Some j)
        from match_htlc_output_Some[OF Some] obtain wscript
          where ws: "htlc_scripts st ! j = Some wscript" by auto
        show ?thesis
        proof (cases "j < length htlcs")
          case False
          with lt nl nr Some show ?thesis
            by (subst (1 2) handle_our_unilateral_loop.simps) simp
        next
          case jl: True
          show ?thesis
          proof (cases "owner (htlcs ! j) = LOCAL")
            case False
            let ?out = "resolve_their_htlc (new_tracked_output t h OUR_UNILATERAL (of_nat i)
                            (amount (tx_output tx ! i)) THEIR_HTLC) (htlcs ! j)"
            from lt nl nr Some jl False
            have eq: "?loop i st = ?loop (Suc i) (st\<lparr>outs := outs st @ [?out],
                         htlc_scripts := (htlc_scripts st)[j := None]\<rparr>)"
              by (subst handle_our_unilateral_loop.simps) (simp add: Let_def)
            show ?thesis unfolding eq by (rule IH) (simp add: inv has_proposal_or_resolved_intros)
          next
            case ol: True
            show ?thesis
            proof (cases "htlc_sigs st")
              case Nil
              with lt nl nr Some jl ol ws show ?thesis
                by (subst (1 2) handle_our_unilateral_loop.simps) simp
            next
              case (Cons remotesig sigs)
              show ?thesis
              proof (cases "resolve_our_htlc_ourcommit E
                            (new_tracked_output t h OUR_UNILATERAL (of_nat i)
                               (amount (tx_output tx ! i)) OUR_HTLC)
                            wscript (htlcs ! j) d (fee_range st)
                            (local_payment_privkey keys) remotesig (keyset keys)")
                case (Inl e)
                then have "e \<noteq> NULL_DEREFERENCE"
                  by (auto simp: resolve_our_htlc_ourcommit_def Let_def resolve_our_htlc_ourcommit_loop_fault
                      narrow_feerate_range_def
                      split: sum.splits prod.splits list.splits if_splits)
                with lt nl nr Some jl ol ws Cons Inl show ?thesis
                  by (subst (1 2) handle_our_unilateral_loop.simps) simp
              next
                case (Inr res)
                obtain out' fr' where res: "res = (out', fr')" by (cases res)
                from resolve_our_htlc_ourcommit_proposal[OF Inr[unfolded res]] have h': "has_proposal_or_resolved out'" .
                from lt nl nr Some jl ol ws Cons Inr res
                have eq: "?loop i st = ?loop (Suc i) (st\<lparr>outs := outs st @ [out'], fee_range := fr',
                               htlc_sigs := sigs,
                               htlc_scripts := (htlc_scripts st)[j := None]\<rparr>)"
                  by (subst handle_our_unilateral_loop.simps) simp
                show ?thesis unfolding eq by (rule IH) (simp add: inv h')
              qed
            qed
          qed
        qed
      qed
    qed
  qed
qed

lemma handle_their_unilateral_loop_inv:
  "n = length (tx_output tx) - i \<Longrightarrow> unresolved_have_proposal (outs st) \<Longrightarrow>
   handle_their_unilateral_loop E tx h t keys wallet f dust htlcs i st \<noteq> Inl NULL_DEREFERENCE
   \<and> (\<forall>st'. handle_their_unilateral_loop E tx h t keys wallet f dust htlcs i st = Inr st'
         \<longrightarrow> unresolved_have_proposal (outs st'))"
proof (induction n arbitrary: i st)
  case 0
  then show ?case
    by (subst (1 2) handle_their_unilateral_loop.simps) simp
next
  case (Suc n)
  then have n: "n = length (tx_output tx) - Suc i" and lt: "i < length (tx_output tx)" by simp_all
  note IH = Suc.IH[OF n]
  note inv = Suc.prems(2)
  let ?loop = "handle_their_unilateral_loop E tx h t keys wallet f dust htlcs"
  show ?case
  proof (cases "script_LOCAL st = Some (script (tx_output tx ! i))")
    case True
    let ?out = "ignore_output (new_tracked_output t h THEIR_UNILATERAL (of_nat i)
                     (amount (tx_output tx ! i)) OUTPUT_TO_US)"
    from lt True have eq: "?loop i st = ?loop (Suc i) (st\<lparr>outs := outs st @ [?out], script_LOCAL := None\<rparr>)"
      by (subst handle_their_unilateral_loop.simps) (simp add: Let_def)
    show ?thesis unfolding eq by (rule IH) (simp add: inv has_proposal_or_resolved_intros)
  next
    case nl: False
    show ?thesis
    proof (cases "script_REMOTE st = Some (script (tx_output tx ! i))")
      case True
      let ?out = "ignore_output (new_tracked_output t h THEIR_UNILATERAL (of_nat i)
                     (amount (tx_output tx ! i)) DELAYED_OUTPUT_TO_THEM)"
      from lt nl True have eq: "?loop i st = ?loop (Suc i) (st\<lparr>outs := outs st @ [?out]\<rparr>)"
        by (subst handle_their_unilateral_loop.simps) (simp add: Let_def)
      show ?thesis unfolding eq by (rule IH) (simp add: inv has_proposal_or_resolved_intros)
    next
      case nr: False
      show ?thesis
      proof (cases "match_htlc_output E tx i (htlc_scripts st)")
        case None
        with lt nl nr show ?thesis
          by (subst (1 2) handle_their_unilateral_loop.simps) simp
      next
        case (Some j)
        from match_htlc_output_Some[OF Some] obtain wscript
          where ws: "htlc_scripts st ! j = Some wscript" by auto
        show ?thesis
        proof (cases "j < length htlcs")
          case False
          with lt nl nr Some show ?thesis
            by (subst (1 2) handle_their_unilateral_loop.simps) simp
        next
          case jl: True
          show ?thesis
          proof (cases "owner (htlcs ! j) = LOCAL")
            case False
            let ?out = "resolve_their_htlc (new_tracked_output t h THEIR_UNILATERAL (of_nat i)
                            (amount (tx_output tx ! i)) THEIR_HTLC) (htlcs ! j)"
            from lt nl nr Some jl False
            have eq: "?loop i st = ?loop (Suc i) (st\<lparr>outs := outs st @ [?out],
                         htlc_scripts := (htlc_scripts st)[j := None]\<rparr>)"
              by (subst handle_their_unilateral_loop.simps) (simp add: Let_def)
            show ?thesis unfolding eq by (rule IH) (simp add: inv has_proposal_or_resolved_intros)
          next
            case ol: True
            show ?thesis
            proof (cases "i < length htlcs")
              case False
              with lt nl nr Some jl ol ws show ?thesis
                by (subst (1 2) handle_their_unilateral_loop.simps) simp
            next
              case il: True
              let ?out = "resolve_our_htlc_theircommit E
                            (new_tracked_output t h THEIR_UNILATERAL (of_nat i)
                               (amount (tx_output tx ! i)) OUR_HTLC)
                            wscript (htlcs ! i) wallet (their_local_payment_privkey keys)
                            (their_keyset keys) f dust"
              from lt nl nr Some jl ol ws il
              have eq: "?loop i st = ?loop (Suc i) (st\<lparr>outs := outs st @ [?out],
                           htlc_scripts := (htlc_scripts st)[j := None]\<rparr>)"
                by (subst handle_their_unilateral_loop.simps) (simp add: Let_def)
              show ?thesis unfolding eq by (rule IH) (simp add: inv has_proposal_or_resolved_intros)
            qed
          qed
        qed
      qed
    qed
  qed
qed

lemma init_feerate_range_fault: "init_feerate_range s tx \<noteq> Inl NULL_DEREFERENCE"
  by (simp add: init_feerate_range_def Let_def)

lemma derive_htlc_scripts_fault: "derive_htlc_scripts E htlcs sd ks \<noteq> Inl NULL_DEREFERENCE"
  by (induction htlcs) (auto split: sum.splits option.splits)

lemma main_outs_single:
  "main_outs tx amt = Inr os \<Longrightarrow> \<exists>funding. os = [funding]"
  by (auto simp: main_outs_def split: list.splits)

lemma run_inv_cases:
  "(case r of Failed e \<Rightarrow> e \<noteq> NULL_DEREFERENCE
      | Reading os' sent' \<Rightarrow> unresolved_have_proposal os'
      | Exited os' sent' \<Rightarrow> unresolved_have_proposal os')
   \<Longrightarrow> r \<noteq> Failed NULL_DEREFERENCE
       \<and> (\<forall>os sent. r = Reading os sent \<or> r = Exited os sent \<longrightarrow> unresolved_have_proposal os)"
  by (cases r) auto

lemma handle_mutual_close_inv:
  assumes "main_outs tx amt = Inr os0" and "r = handle_mutual_close E tx t os0 msgs"
  shows "r \<noteq> Failed NULL_DEREFERENCE
     \<and> (\<forall>os sent. r = Reading os sent \<or> r = Exited os sent \<longrightarrow> unresolved_have_proposal os)"
proof -
  from main_outs_single[OF assms(1)] obtain funding where os0: "os0 = [funding]" by blast
  have "unresolved_have_proposal [resolved_by_other funding t MUTUAL_CLOSE]"
    by (simp add: has_proposal_or_resolved_intros)
  from wait_for_resolved_inv[OF this, of E "[Onchain_init_reply ONCHAIND_MUTUAL]" msgs]
  show ?thesis unfolding assms(2) handle_mutual_close_def os0 list.case by (rule run_inv_cases)
qed

lemma handle_our_unilateral_scan_inv:
  assumes "main_outs tx amt = Inr os0"
  shows "handle_our_unilateral_scan E tx h t keys wallet d f dust htlcs sigs os0 \<noteq> Inl NULL_DEREFERENCE
     \<and> (\<forall>st. handle_our_unilateral_scan E tx h t keys wallet d f dust htlcs sigs os0 = Inr st
            \<longrightarrow> unresolved_have_proposal (outs st))"
proof -
  from main_outs_single[OF assms] obtain funding where os0: "os0 = [funding]" by blast
  show ?thesis
  proof (cases "init_feerate_range (satoshi funding) tx")
    case (Inl e)
    with init_feerate_range_fault[of "satoshi funding" tx] show ?thesis
      by (simp add: handle_our_unilateral_scan_def os0)
  next
    case fr: (Inr feerate_range)
    show ?thesis
    proof (cases keys)
      case None
      with fr show ?thesis by (simp add: handle_our_unilateral_scan_def os0)
    next
      case (Some k)
      show ?thesis
      proof (cases "derive_htlc_scripts E htlcs LOCAL (keyset k)")
        case (Inl e)
        with derive_htlc_scripts_fault[of E htlcs LOCAL "keyset k"] fr Some show ?thesis
          by (simp add: handle_our_unilateral_scan_def os0)
      next
        case (Inr scripts)
        show ?thesis
          unfolding handle_our_unilateral_scan_def os0 list.case fr Some Inr sum.case option.case
          by (rule handle_our_unilateral_loop_inv[OF refl])
             (simp add: has_proposal_or_resolved_intros)
      qed
    qed
  qed
qed

lemma handle_their_unilateral_scan_inv:
  assumes "main_outs tx amt = Inr os0"
  shows "handle_their_unilateral_scan E tx h t keys wallet d f dust htlcs os0 \<noteq> Inl NULL_DEREFERENCE
     \<and> (\<forall>st. handle_their_unilateral_scan E tx h t keys wallet d f dust htlcs os0 = Inr st
            \<longrightarrow> unresolved_have_proposal (outs st))"
proof -
  from main_outs_single[OF assms] obtain funding where os0: "os0 = [funding]" by blast
  show ?thesis
  proof (cases "init_feerate_range (satoshi funding) tx")
    case (Inl e)
    with init_feerate_range_fault[of "satoshi funding" tx] show ?thesis
      by (simp add: handle_their_unilateral_scan_def os0)
  next
    case fr: (Inr feerate_range)
    show ?thesis
    proof (cases keys)
      case None
      with fr show ?thesis by (simp add: handle_their_unilateral_scan_def os0)
    next
      case (Some k)
      show ?thesis
      proof (cases "derive_htlc_scripts E htlcs REMOTE (their_keyset k)")
        case (Inl e)
        with derive_htlc_scripts_fault[of E htlcs REMOTE "their_keyset k"] fr Some show ?thesis
          by (simp add: handle_their_unilateral_scan_def os0)
      next
        case (Inr scripts)
        show ?thesis
          unfolding handle_their_unilateral_scan_def os0 list.case fr Some Inr sum.case option.case
          by (rule handle_their_unilateral_loop_inv[OF refl])
             (simp add: has_proposal_or_resolved_intros)
      qed
    qed
  qed
qed

lemma handle_our_unilateral_inv:
  assumes "main_outs tx amt = Inr os0"
    and "r = handle_our_unilateral E tx h t keys wallet d f dust htlcs sigs os0 msgs"
  shows "r \<noteq> Failed NULL_DEREFERENCE
     \<and> (\<forall>os sent. r = Reading os sent \<or> r = Exited os sent \<longrightarrow> unresolved_have_proposal os)"
proof (cases "handle_our_unilateral_scan E tx h t keys wallet d f dust htlcs sigs os0")
  case (Inl e)
  with handle_our_unilateral_scan_inv[OF assms(1), of E h t keys wallet d f dust htlcs sigs]
  show ?thesis by (simp add: assms(2) handle_our_unilateral_def)
next
  case (Inr st)
  with handle_our_unilateral_scan_inv[OF assms(1), of E h t keys wallet d f dust htlcs sigs]
  have "unresolved_have_proposal (outs st)" by simp
  from wait_for_resolved_inv[OF this, of E "[Onchain_init_reply ONCHAIND_OUR_UNILATERAL]" msgs]
  show ?thesis unfolding assms(2) handle_our_unilateral_def Inr sum.case by (rule run_inv_cases)
qed

lemma handle_their_unilateral_inv:
  assumes "main_outs tx amt = Inr os0"
    and "r = handle_their_unilateral E tx h t keys wallet d f dust htlcs os0 msgs"
  shows "r \<noteq> Failed NULL_DEREFERENCE
     \<and> (\<forall>os sent. r = Reading os sent \<or> r = Exited os sent \<longrightarrow> unresolved_have_proposal os)"
proof (cases "handle_their_unilateral_scan E tx h t keys wallet d f dust htlcs os0")
  case (Inl e)
  with handle_their_unilateral_scan_inv[OF assms(1), of E h t keys wallet d f dust htlcs]
  show ?thesis by (simp add: assms(2) handle_their_unilateral_def)
next
  case (Inr st)
  with handle_their_unilateral_scan_inv[OF assms(1), of E h t keys wallet d f dust htlcs]
  have "unresolved_have_proposal (outs st)" by simp
  from wait_for_resolved_inv[OF this, of E "[Onchain_init_reply ONCHAIND_THEIR_UNILATERAL]" msgs]
  show ?thesis unfolding assms(2) handle_their_unilateral_def Inr sum.case by (rule run_inv_cases)
qed

lemma wait_for_resolved_append:
  "wait_for_resolved E os sent (pre @ post) =
     (case wait_for_resolved E os sent pre of
        Reading os' sent' \<Rightarrow> wait_for_resolved E os' sent' post
      | r \<Rightarrow> r)"
proof (induction pre arbitrary: os sent)
  case Nil
  then show ?case by (cases post) simp_all
next
  case (Cons msg pre)
  then show ?case
    by (cases msg) (auto split: sum.splits prod.splits)
qed

text \<open>
  C10. Start from the store \<open>main\<close> builds and run any of the three handlers that reach
  \<open>wait_for_resolved\<close>, on any messages. The run never stops in a null dereference, so
  \<open>resolved_by_proposal\<close> never reads \<open>out->proposal\<close> of an output without one; and
  whenever the loop is about to read its next message (\<open>Reading\<close>), or has returned,
  every output that is still unresolved carries a proposal. Since the messages are
  arbitrary, and by \<open>wait_for_resolved_append\<close> the run on a prefix is the state in
  which the next message is dispatched, this holds at every dispatch of a spend
  notification.
\<close>

theorem unresolved_outputs_carry_proposal:
  assumes "main_outs tx funding_amount_satoshi = Inr os0"
    and "r = handle_mutual_close E tx t os0 msgs
       \<or> r = handle_our_unilateral E tx h t keys wallet d f dust htlcs sigs os0 msgs
       \<or> r = handle_their_unilateral E tx h t keys' wallet d' f dust htlcs os0 msgs"
  shows "r \<noteq> Failed NULL_DEREFERENCE
     \<and> (\<forall>os sent. r = Reading os sent \<or> r = Exited os sent \<longrightarrow> unresolved_have_proposal os)"
  using assms(2)
proof (elim disjE)
  assume "r = handle_mutual_close E tx t os0 msgs"
  from handle_mutual_close_inv[OF assms(1) this] show ?thesis .
next
  assume "r = handle_our_unilateral E tx h t keys wallet d f dust htlcs sigs os0 msgs"
  from handle_our_unilateral_inv[OF assms(1) this] show ?thesis .
next
  assume "r = handle_their_unilateral E tx h t keys' wallet d' f dust htlcs os0 msgs"
  from handle_their_unilateral_inv[OF assms(1) this] show ?thesis .
qed

theorem unresolved_outputs_carry_proposal_witness:
  "main_outs c2_tx 100000 = Inr ex_funding
   \<and> (\<exists>os sent. handle_their_unilateral ext_ex c2_tx 450 [3] (Some ex_their_keys) [12] 144
                   1000 546 c2_htlcs ex_funding c10_msgs = Reading os sent
          \<and> unresolved_have_proposal os)"
proof -
  let ?r = "handle_their_unilateral ext_ex c2_tx 450 [3] (Some ex_their_keys) [12] 144
              1000 546 c2_htlcs ex_funding c10_msgs"
  have m: "main_outs c2_tx 100000 = Inr ex_funding"
    by (simp add: main_outs_def c2_tx_def ex_funding_def)
  have "(case ?r of Reading os sent \<Rightarrow> True | _ \<Rightarrow> False)"
    by code_simp
  then obtain os sent where r: "?r = Reading os sent"
    by (cases ?r) simp_all
  from unresolved_outputs_carry_proposal [OF m, where r = ?r and E = ext_ex and msgs = c10_msgs
      and keys' = "Some ex_their_keys" and htlcs = c2_htlcs and h = 450 and t = "[3]"
      and wallet = "[12]" and d' = 144 and f = 1000 and dust = 546] r
  have "unresolved_have_proposal os" by simp
  with m r show ?thesis by blast
qed

end
